theory Spec2Isabelle
  imports Complex_Main
begin

section \<open>abtem.detect: polar detector geometry\<close>

text \<open>
  A shallow embedding of \<^verbatim>\<open>src/abtem/detect.py\<close>. Python floats are read as
  real numbers (no rounding), Python integers as \<open>int\<close>, array shapes and flat
  indices as \<open>nat\<close>. Every \<^verbatim>\<open>raise\<close> of the source, and every exception
  that Python or NumPy raises on the modelled paths, is a value of \<open>error\<close>.
\<close>

subsection \<open>Errors and Python arithmetic\<close>

datatype error =
    OuterNotSet          \<comment> \<open>RuntimeError('The outer integration angle is not set.')\<close>
  | ZeroSizedRegion      \<comment> \<open>RuntimeError('Zero-sized detector region.')\<close>
  | MaxAngleExceeded     \<comment> \<open>RuntimeError('Detector max angle exceeds the cutoff scattering angle.')\<close>
  | UnsupportedResample  \<comment> \<open>RuntimeError('') of \<^verbatim>\<open>_resampled_gpts\<close>\<close>
  | GridUndefined        \<comment> \<open>raised by \<^verbatim>\<open>waves.grid.check_is_defined()\<close>\<close>
  | ZeroDivisionError    \<comment> \<open>Python float or int division by zero\<close>
  | ValueError           \<comment> \<open>NumPy: max of an empty array, impossible reshape, failed broadcast\<close>
  | IndexError           \<comment> \<open>Python: index into an empty list\<close>
  | TypeError            \<comment> \<open>Python: arithmetic on None\<close>

text \<open>Python's \<^verbatim>\<open>a / b\<close> on scalars raises on a zero divisor.\<close>

definition py_div :: "real \<Rightarrow> real \<Rightarrow> error + real" where
  "py_div a b = (if b = 0 then Inl ZeroDivisionError else Inr (a / b))"

text \<open>Python's \<^verbatim>\<open>int(x)\<close> and NumPy's cast of a float to an integer truncate towards zero.\<close>

definition trunc :: "real \<Rightarrow> int" where
  "trunc x = (if 0 \<le> x then \<lfloor>x\<rfloor> else \<lceil>x\<rceil>)"

text \<open>NumPy's \<^verbatim>\<open>x % m\<close> on floats: the result takes the sign of the divisor.\<close>

definition np_mod :: "real \<Rightarrow> real \<Rightarrow> real" where
  "np_mod x m = x - m * of_int \<lfloor>x / m\<rfloor>"

text \<open>\<^verbatim>\<open>np.arctan2(y, x)\<close>: the angle of the point \<open>(x, y)\<close> in \<open>(-\<pi>, \<pi>]\<close>.\<close>

definition arctan2 :: "real \<Rightarrow> real \<Rightarrow> real" where
  "arctan2 y x =
     (if 0 < x then arctan (y / x)
      else if x < 0 then (if 0 \<le> y then arctan (y / x) + pi else arctan (y / x) - pi)
      else if 0 < y then pi / 2
      else if y < 0 then - (pi / 2)
      else 0)"

text \<open>\<^verbatim>\<open>np.clip(x, lo, hi)\<close> is \<^verbatim>\<open>minimum(maximum(x, lo), hi)\<close>.\<close>

definition clip :: "real \<Rightarrow> real \<Rightarrow> real \<Rightarrow> real" where
  "clip x lo hi = min (max x lo) hi"

text \<open>
  NumPy does not raise on a float division by zero inside an array expression: the
  quotient is NaN, and the cast of NaN to a 64-bit integer gives the smallest one on
  x86-64. The only such quotient of this module is \<open>0 / 0\<close> in the radial bin of a cell
  with \<open>alpha = inner = outer\<close>.
\<close>

definition int_of_nan :: int where
  "int_of_nan = - (2 ^ 63)"

text \<open>
  The label arrays hold 64-bit integers (\<^verbatim>\<open>dtype=int\<close>): NumPy's product and sum of
  such integers wrap around silently.
\<close>

definition wrap64 :: "int \<Rightarrow> int" where
  "wrap64 x = (x + 2 ^ 63) mod 2 ^ 64 - 2 ^ 63"

subsection \<open>Spatial frequencies\<close>

text \<open>
  Modelled from the spec: \<^verbatim>\<open>abtem.utils.spatial_frequencies\<close> is not under src/.
  Section 4.1: two 1D arrays of signed spatial frequencies in standard FFT frequency
  ordering, that is \<^verbatim>\<open>np.fft.fftfreq(n, d)\<close> per axis: entry \<open>k\<close> is \<open>k / (n d)\<close> for
  \<open>k < (n + 1) div 2\<close> and \<open>(k - n) / (n d)\<close> above.
\<close>

definition fftfreq :: "nat \<Rightarrow> real \<Rightarrow> real list" where
  "fftfreq n d =
     map (\<lambda>k. (if k < (n + 1) div 2 then real k else real k - real n) / (real n * d)) [0..<n]"

definition spatial_frequencies :: "nat \<times> nat \<Rightarrow> real \<times> real \<Rightarrow> real list \<times> real list" where
  "spatial_frequencies gpts sampling =
     (fftfreq (fst gpts) (fst sampling), fftfreq (snd gpts) (snd sampling))"

subsection \<open>The polar region labeler\<close>

text \<open>\<^verbatim>\<open>np.sqrt(alpha_x ** 2 + alpha_y ** 2)\<close> at one cell.\<close>

definition alpha_of :: "real \<Rightarrow> real \<Rightarrow> real" where
  "alpha_of ax ay = sqrt (ax\<^sup>2 + ay\<^sup>2)"

definition valid :: "real \<Rightarrow> real \<Rightarrow> real \<Rightarrow> bool" where
  "valid inner outer a \<longleftrightarrow> inner \<le> a \<and> a \<le> outer"

text \<open>
  \<^verbatim>\<open>radial_bins[valid] = nbins_radial * (alpha[valid] - inner) / (outer - inner)\<close>,
  stored into an integer array.
\<close>

definition radial_bin :: "real \<Rightarrow> real \<Rightarrow> int \<Rightarrow> real \<Rightarrow> int" where
  "radial_bin inner outer nbins_radial a =
     (if outer - inner = 0 then int_of_nan
      else trunc (of_int nbins_radial * (a - inner) / (outer - inner)))"

text \<open>
  \<^verbatim>\<open>angles = np.arctan2(alpha_x[:, None], alpha_y[None]) % (2 * np.pi)\<close>, then
  \<^verbatim>\<open>np.clip(np.floor(nbins_azimuthal * (angles / (2 * np.pi))), 0, nbins_azimuthal - 1)\<close>.
\<close>

definition angle_of :: "real \<Rightarrow> real \<Rightarrow> real" where
  "angle_of ax ay = np_mod (arctan2 ax ay) (2 * pi)"

definition angular_bin :: "int \<Rightarrow> real \<Rightarrow> int" where
  "angular_bin nbins_azimuthal angle =
     trunc (clip (of_int \<lfloor>of_int nbins_azimuthal * (angle / (2 * pi))\<rfloor>) 0
                 (of_int (nbins_azimuthal - 1)))"

text \<open>
  \<^verbatim>\<open>bins[valid] = angular_bins[valid] + radial_bins[valid] * nbins_azimuthal\<close> at one
  cell, \<open>-1\<close> elsewhere. With the cast of NaN as radial bin the product leaves the 64-bit
  range and wraps around; the other labels are read as unbounded integers.
\<close>

definition cell_label :: "real \<Rightarrow> real \<Rightarrow> int \<Rightarrow> int \<Rightarrow> real \<Rightarrow> real \<Rightarrow> int" where
  "cell_label inner outer nbins_radial nbins_azimuthal ax ay =
     (if valid inner outer (alpha_of ax ay)
      then (if outer - inner = 0
            then wrap64 (angular_bin nbins_azimuthal (angle_of ax ay)
                         + radial_bin inner outer nbins_radial (alpha_of ax ay) * nbins_azimuthal)
            else angular_bin nbins_azimuthal (angle_of ax ay)
                 + radial_bin inner outer nbins_radial (alpha_of ax ay) * nbins_azimuthal)
      else - 1)"

text \<open>
  \<^verbatim>\<open>_polar_regions\<close>. The sampling \<^verbatim>\<open>1 / angular_sampling[i] / gpts[i]\<close> is
  scalar Python arithmetic and raises on a zero. The result is the label array, one
  row per \<open>kx\<close>.
\<close>

definition polar_regions ::
  "nat \<times> nat \<Rightarrow> real \<times> real \<Rightarrow> real \<Rightarrow> real \<Rightarrow> int \<Rightarrow> int \<Rightarrow> error + int list list" where
  "polar_regions gpts angular_sampling inner outer nbins_radial nbins_azimuthal =
     (if fst angular_sampling = 0 \<or> snd angular_sampling = 0 \<or> fst gpts = 0 \<or> snd gpts = 0
      then Inl ZeroDivisionError
      else
        let sampling = (1 / fst angular_sampling / real (fst gpts),
                        1 / snd angular_sampling / real (snd gpts));
            (kx, ky) = spatial_frequencies gpts sampling
        in Inr (map (\<lambda>ax. map (\<lambda>ay. cell_label inner outer nbins_radial nbins_azimuthal ax ay) ky) kx))"

text \<open>
  The frequency pair \<open>(kx[i], ky[j])\<close> and the radial magnitude \<open>alpha[i, j]\<close> of every
  cell, in the order of the flattened array (flat index \<open>i * gpts[1] + j\<close>).
\<close>

definition frequency_grid :: "nat \<times> nat \<Rightarrow> real \<times> real \<Rightarrow> (real \<times> real) list" where
  "frequency_grid gpts angular_sampling =
     (let sampling = (1 / fst angular_sampling / real (fst gpts),
                      1 / snd angular_sampling / real (snd gpts));
          (kx, ky) = spatial_frequencies gpts sampling
      in List.product kx ky)"

definition alpha_grid :: "nat \<times> nat \<Rightarrow> real \<times> real \<Rightarrow> real list" where
  "alpha_grid gpts angular_sampling =
     map (\<lambda>(ax, ay). alpha_of ax ay) (frequency_grid gpts angular_sampling)"

subsection \<open>The label-to-index grouper\<close>

text \<open>
  \<^verbatim>\<open>labels.argsort()\<close>: a permutation of the indices that sorts the labels. NumPy's
  default sort promises no order among equal labels; here it is the index order (a
  stable sort, as the spec's section 4.3 describes), and the properties below speak of
  every group as a set of indices.
\<close>

definition argsort :: "int list \<Rightarrow> nat list" where
  "argsort labels = sort_key (\<lambda>i. labels ! i) [0..<length labels]"

text \<open>\<^verbatim>\<open>np.searchsorted(a, v, side)\<close> on a sorted array \<open>a\<close>.\<close>

definition searchsorted_left :: "int list \<Rightarrow> int \<Rightarrow> nat" where
  "searchsorted_left a v = length (takeWhile (\<lambda>x. x < v) a)"

definition searchsorted_right :: "int list \<Rightarrow> int \<Rightarrow> nat" where
  "searchsorted_right a v = length (takeWhile (\<lambda>x. x \<le> v) a)"

text \<open>\<^verbatim>\<open>np.max\<close> raises on an empty array.\<close>

fun np_max :: "int list \<Rightarrow> error + int" where
  "np_max [] = Inl ValueError"
| "np_max (x # xs) = Inr (fold max xs x)"

text \<open>\<^verbatim>\<open>xp.arange(0, m)\<close> for an integer \<open>m\<close>; empty when \<open>m \<le> 0\<close>.\<close>

definition arange :: "int \<Rightarrow> int list" where
  "arange m = map int [0..<nat m]"

text \<open>The Python slice \<^verbatim>\<open>a[l:h]\<close> for \<open>0 \<le> l\<close>, \<open>0 \<le> h\<close>.\<close>

definition slice :: "'a list \<Rightarrow> nat \<Rightarrow> nat \<Rightarrow> 'a list" where
  "slice a l h = take (h - l) (drop l a)"

text \<open>
  \<^verbatim>\<open>_PolarDetector._label_to_index\<close>; the generator is collected into the list of
  its values, as \<^verbatim>\<open>_get_regions\<close> does.
\<close>

definition label_to_index :: "int list list \<Rightarrow> error + nat list list" where
  "label_to_index labels2d =
     (let labels = concat labels2d;
          labels_order = argsort labels;
          sorted_labels = map (\<lambda>i. labels ! i) labels_order;
          indices = map (\<lambda>i. [0..<length labels + 1] ! i) labels_order
      in case np_max labels of
           Inl e \<Rightarrow> Inl e
         | Inr m \<Rightarrow>
             let index = arange (m + 1);
                 lo = map (searchsorted_left sorted_labels) index;
                 hi = map (searchsorted_right sorted_labels) index
             in Inr (map (\<lambda>(l, h). slice indices l h) (zip lo hi)))"

subsection \<open>The polar detector\<close>

text \<open>
  The fields of \<^verbatim>\<open>_PolarDetector\<close> that the geometry reads, and its single-entry
  cache of regions, keyed by the arguments of \<^verbatim>\<open>_get_regions\<close>.
\<close>

type_synonym regions_key = "(nat \<times> nat) \<times> (real \<times> real) \<times> real option"

record detector =
  inner :: "real option"
  outer :: "real option"
  radial_steps :: real
  azimuthal_steps :: real
  max_detected_angle :: "real option"
  cache :: "(regions_key \<times> nat list list) option"

text \<open>\<^verbatim>\<open>_PolarDetector.__init__\<close>.\<close>

definition PolarDetector_init ::
  "real option \<Rightarrow> real option \<Rightarrow> real \<Rightarrow> real option \<Rightarrow> detector" where
  "PolarDetector_init inner' outer' radial_steps' azimuthal_steps' =
     \<lparr> inner = inner', outer = outer', radial_steps = radial_steps',
       azimuthal_steps = (case azimuthal_steps' of None \<Rightarrow> 2 * pi | Some s \<Rightarrow> s),
       max_detected_angle = outer', cache = None \<rparr>"

text \<open>\<^verbatim>\<open>_PolarDetector._get_bins\<close>: \<open>(nbins_radial, nbins_azimuthal, inner, outer)\<close>.\<close>

definition get_bins :: "detector \<Rightarrow> real option \<Rightarrow> error + (int \<times> int \<times> real \<times> real)" where
  "get_bins d cutoff_scattering_angle =
     (let inner' = (case inner d of None \<Rightarrow> 0 | Some v \<Rightarrow> v);
          outer_r = (case outer d of
                       None \<Rightarrow>
                         (case cutoff_scattering_angle of
                            None \<Rightarrow> Inl OuterNotSet
                          | Some c \<Rightarrow>
                              (case py_div c (radial_steps d) of
                                 Inl e \<Rightarrow> Inl e
                               | Inr q \<Rightarrow> Inr (of_int \<lfloor>q\<rfloor> * radial_steps d)))
                     | Some v \<Rightarrow> Inr v)
      in case outer_r of
           Inl e \<Rightarrow> Inl e
         | Inr outer' \<Rightarrow>
             (case py_div (outer' - inner') (radial_steps d) of
                Inl e \<Rightarrow> Inl e
              | Inr qr \<Rightarrow>
                  (case py_div (2 * pi) (azimuthal_steps d) of
                     Inl e \<Rightarrow> Inl e
                   | Inr qa \<Rightarrow> Inr (\<lceil>qr\<rceil>, \<lceil>qa\<rceil>, inner', outer'))))"

text \<open>
  The body of \<^verbatim>\<open>_PolarDetector._get_regions\<close>: bins, labels (angles converted from
  mrad to rad), the zero-size guard, then the groups.
\<close>

definition get_regions_body ::
  "detector \<Rightarrow> nat \<times> nat \<Rightarrow> real \<times> real \<Rightarrow> real option \<Rightarrow> error + nat list list" where
  "get_regions_body d gpts angular_sampling cutoff_scattering_angle =
     (case get_bins d cutoff_scattering_angle of
        Inl e \<Rightarrow> Inl e
      | Inr (nbins_radial, nbins_azimuthal, inner', outer') \<Rightarrow>
          (case polar_regions gpts (fst angular_sampling / 1000, snd angular_sampling / 1000)
                  (inner' / 1000) (outer' / 1000) nbins_radial nbins_azimuthal of
             Inl e \<Rightarrow> Inl e
           | Inr region_labels \<Rightarrow>
               if list_all (\<lambda>l. l = - 1) (concat region_labels) then Inl ZeroSizedRegion
               else label_to_index region_labels))"

text \<open>
  Modelled from the spec: \<^verbatim>\<open>Cache\<close>, \<^verbatim>\<open>cached_method\<close>, \<^verbatim>\<open>Event\<close> and
  \<^verbatim>\<open>watched_property\<close> of \<^verbatim>\<open>abtem.base_classes\<close> are not under src/. Section 4.4:
  a single-entry memoization keyed by (gpts, angular sampling, cutoff angle); a raised
  exception stores nothing. The geometry of the detector is not part of the key: a
  stored entry is returned for its key whatever the limits of the detector have become
  since.
\<close>

definition get_regions ::
  "detector \<Rightarrow> nat \<times> nat \<Rightarrow> real \<times> real \<Rightarrow> real option \<Rightarrow> (error + nat list list) \<times> detector" where
  "get_regions d gpts angular_sampling cutoff_scattering_angle =
     (let key = (gpts, angular_sampling, cutoff_scattering_angle);
          hit = (case cache d of None \<Rightarrow> None | Some (k, v) \<Rightarrow> if k = key then Some v else None)
      in case hit of
           Some v \<Rightarrow> (Inr v, d)
         | None \<Rightarrow>
             (case get_regions_body d gpts angular_sampling cutoff_scattering_angle of
                Inl e \<Rightarrow> (Inl e, d)
              | Inr v \<Rightarrow> (Inr v, d\<lparr>cache := Some (key, v)\<rparr>)))"

text \<open>
  Modelled from the spec: section 3 has a write to a watched property fire a change
  notification that invalidates the cache, which is \<open>cache_clear\<close>. In
  \<^verbatim>\<open>detect.py\<close> the constructor creates the event (\<^verbatim>\<open>self.changed = Event()\<close>) and
  registers no observer on it, so on the code as written the notification reaches
  nothing and a setter leaves the cache as it is. The setters below take the effect of
  the notification as a parameter \<open>notify\<close>: the identity for the code as written,
  \<open>cache_clear\<close> for the invalidation that the spec describes.
\<close>

definition cache_clear :: "detector \<Rightarrow> detector" where
  "cache_clear d = d\<lparr>cache := None\<rparr>"

subsection \<open>Arrays\<close>

text \<open>
  A batched array of shape \<open>(batch, nx, ny)\<close>: the trailing shape and, per batch
  element, the row-major flattening of its \<open>nx \<times> ny\<close> values, which is what
  \<^verbatim>\<open>array.reshape(array.shape[:-2] + (-1,))\<close> gives.
\<close>

record 'a ndarray =
  shape2 :: "nat \<times> nat"
  flat :: "'a list list"

text \<open>
  NumPy's elementwise \<^verbatim>\<open>x / y\<close>: no exception on a zero divisor; \<open>None\<close> stands
  for the non-finite result (NaN or an infinity).
\<close>

definition np_divide :: "real \<Rightarrow> real \<Rightarrow> real option" where
  "np_divide x y = (if y = 0 then None else Some (x / y))"

text \<open>Fancy indexing \<^verbatim>\<open>row[indices]\<close>; NumPy raises on an index out of bounds.\<close>

definition take_indices :: "'a list \<Rightarrow> nat list \<Rightarrow> error + 'a list" where
  "take_indices row indices =
     (if list_all (\<lambda>i. i < length row) indices then Inr (map (\<lambda>i. row ! i) indices)
      else Inl IndexError)"

text \<open>The same on every batch element: \<^verbatim>\<open>array[..., indices]\<close>.\<close>

fun take_indices_batch :: "'a list list \<Rightarrow> nat list \<Rightarrow> error + 'a list list" where
  "take_indices_batch [] indices = Inr []"
| "take_indices_batch (row # rows) indices =
     (case take_indices row indices of
        Inl e \<Rightarrow> Inl e
      | Inr r \<Rightarrow> (case take_indices_batch rows indices of
                    Inl e \<Rightarrow> Inl e
                  | Inr rs \<Rightarrow> Inr (r # rs)))"

subsection \<open>The wave descriptor\<close>

text \<open>
  What the detectors read of a \<^verbatim>\<open>Waves\<close> object (spec, section 6).
  \<open>grid_defined\<close> is the outcome of \<^verbatim>\<open>waves.grid.check_is_defined()\<close>.
\<close>

record waves =
  array :: "complex ndarray"
  gpts :: "nat \<times> nat"
  angular_sampling :: "real \<times> real"
  cutoff_scattering_angles :: "real \<times> real"
  wavelength :: real
  grid_defined :: bool

definition min_cutoff :: "waves \<Rightarrow> real" where
  "min_cutoff w = min (fst (cutoff_scattering_angles w)) (snd (cutoff_scattering_angles w))"

subsection \<open>AnnularDetector\<close>

text \<open>\<^verbatim>\<open>AnnularDetector.__init__\<close>: the radial step is the width of the annulus.\<close>

definition AnnularDetector_init :: "real \<Rightarrow> real \<Rightarrow> detector" where
  "AnnularDetector_init inner' outer' =
     PolarDetector_init (Some inner') (Some outer') (outer' - inner') None"

text \<open>
  The setters of \<^verbatim>\<open>inner\<close> and \<^verbatim>\<open>outer\<close>, both watched properties; neither
  updates \<open>radial_steps\<close>.
\<close>

definition AnnularDetector_set_inner :: "(detector \<Rightarrow> detector) \<Rightarrow> real \<Rightarrow> detector \<Rightarrow> detector" where
  "AnnularDetector_set_inner notify v d = notify (d\<lparr>inner := Some v\<rparr>)"

definition AnnularDetector_set_outer :: "(detector \<Rightarrow> detector) \<Rightarrow> real \<Rightarrow> detector \<Rightarrow> detector" where
  "AnnularDetector_set_outer notify v d =
     notify (d\<lparr>max_detected_angle := Some v, outer := Some v\<rparr>)"

text \<open>\<^verbatim>\<open>AnnularDetector._integrate_array\<close>: the sum over the first region only.\<close>

definition integrate_array ::
  "detector \<Rightarrow> real ndarray \<Rightarrow> real \<times> real \<Rightarrow> real option \<Rightarrow> bool
     \<Rightarrow> (error + real option list) \<times> detector" where
  "integrate_array d arr angular_sampling' cutoff_scattering_angle normalize' =
     (case get_regions d (shape2 arr) angular_sampling' cutoff_scattering_angle of
        (Inl e, d') \<Rightarrow> (Inl e, d')
      | (Inr regions, d') \<Rightarrow>
          (case regions of
             [] \<Rightarrow> (Inl IndexError, d')
           | indices # _ \<Rightarrow>
               (case take_indices_batch (flat arr) indices of
                  Inl e \<Rightarrow> (Inl e, d')
                | Inr picked \<Rightarrow>
                    let values = map sum_list picked
                    in if normalize'
                       then (Inr (map2 np_divide values (map sum_list (flat arr))), d')
                       else (Inr (map Some values), d'))))"

text \<open>
  \<^verbatim>\<open>AnnularDetector.detect\<close>. The device functions \<^verbatim>\<open>fft2\<close> and \<^verbatim>\<open>abs2\<close> are
  looked up at run time (\<^verbatim>\<open>get_device_function\<close>) and are parameters here.
\<close>

definition AnnularDetector_detect ::
  "(complex ndarray \<Rightarrow> complex ndarray) \<Rightarrow> (complex ndarray \<Rightarrow> real ndarray)
     \<Rightarrow> detector \<Rightarrow> waves \<Rightarrow> bool \<Rightarrow> (error + real option list) \<times> detector" where
  "AnnularDetector_detect fft2 abs2 d w normalize' =
     (let intensity = abs2 (fft2 (array w))
      in integrate_array d intensity (angular_sampling w) (Some (min_cutoff w)) normalize')"

subsection \<open>SegmentedDetector\<close>

text \<open>
  \<^verbatim>\<open>SegmentedDetector.__init__\<close>: the steps are computed from the bin counts by
  scalar Python division.
\<close>

definition SegmentedDetector_init :: "real \<Rightarrow> real \<Rightarrow> int \<Rightarrow> int \<Rightarrow> error + detector" where
  "SegmentedDetector_init inner' outer' nbins_radial nbins_angular =
     (case py_div (outer' - inner') (of_int nbins_radial) of
        Inl e \<Rightarrow> Inl e
      | Inr radial_steps' \<Rightarrow>
          (case py_div (2 * pi) (of_int nbins_angular) of
             Inl e \<Rightarrow> Inl e
           | Inr azimuthal_steps' \<Rightarrow>
               Inr (PolarDetector_init (Some inner') (Some outer') radial_steps'
                      (Some azimuthal_steps'))))"

text \<open>The properties \<^verbatim>\<open>nbins_radial\<close> and \<^verbatim>\<open>nbins_angular\<close>.\<close>

definition nbins_radial_of :: "detector \<Rightarrow> error + int" where
  "nbins_radial_of d =
     (case (outer d, inner d) of
        (Some o', Some i') \<Rightarrow>
          (case py_div (o' - i') (radial_steps d) of Inl e \<Rightarrow> Inl e | Inr q \<Rightarrow> Inr (trunc q))
      | _ \<Rightarrow> Inl TypeError)"

definition nbins_angular_of :: "detector \<Rightarrow> error + int" where
  "nbins_angular_of d =
     (case py_div (2 * pi) (azimuthal_steps d) of Inl e \<Rightarrow> Inl e | Inr q \<Rightarrow> Inr (trunc q))"

text \<open>\<^verbatim>\<open>xp.cumsum\<close>.\<close>

fun cumsum_from :: "nat \<Rightarrow> nat list \<Rightarrow> nat list" where
  "cumsum_from acc [] = []"
| "cumsum_from acc (x # xs) = (acc + x) # cumsum_from (acc + x) xs"

definition cumsum :: "nat list \<Rightarrow> nat list" where
  "cumsum xs = cumsum_from 0 xs"

text \<open>
  Modelled from the spec: the device function \<^verbatim>\<open>sum_run_length_encoded\<close> of
  \<^verbatim>\<open>abtem.device\<close> is not under src/. Section 4.5:
  \<^verbatim>\<open>output[..., g] = sum(values[..., separators[g]:separators[g+1]])\<close>, for the
  \<open>length separators - 1\<close> groups, batched over the leading axis.
\<close>

definition sum_run_length_encoded :: "real list list \<Rightarrow> nat list \<Rightarrow> real list list" where
  "sum_run_length_encoded values separators =
     map (\<lambda>row. map (\<lambda>g. sum_list (slice row (separators ! g) (separators ! (g + 1))))
                     [0..<length separators - 1]) values"

text \<open>\<open>chunk k n xs\<close>: the first \<open>k\<close> consecutive pieces of length \<open>n\<close> of \<open>xs\<close>.\<close>

primrec chunk :: "nat \<Rightarrow> nat \<Rightarrow> 'a list \<Rightarrow> 'a list list" where
  "chunk 0 n xs = []"
| "chunk (Suc k) n xs = take n xs # chunk k n (drop n xs)"

text \<open>
  \<^verbatim>\<open>result.reshape((-1, nbins_radial, nbins_angular))\<close> (row-major). NumPy raises when
  a dimension is negative, when the unknown dimension cannot be found (zero product)
  and when the size is not a multiple of \<open>nbins_radial * nbins_angular\<close>.
\<close>

definition reshape3 :: "real list list \<Rightarrow> int \<Rightarrow> int \<Rightarrow> error + real list list list" where
  "reshape3 result nr na =
     (let data = concat result; m = nat (nr * na)
      in if nr < 0 \<or> na < 0 \<or> nr * na = 0 \<or> length data mod m \<noteq> 0 then Inl ValueError
         else Inr (map (chunk (nat nr) (nat na)) (chunk (length data div m) m data)))"

text \<open>
  \<^verbatim>\<open>result3 / total[:, None, None]\<close> with NumPy's broadcasting of the leading axis:
  equal lengths pair up, a length of one is repeated, anything else raises.
\<close>

definition divide_total ::
  "real list list list \<Rightarrow> real list \<Rightarrow> error + real option list list list" where
  "divide_total r total' =
     (if length r = length total'
      then Inr (map2 (\<lambda>x t. map (map (\<lambda>v. np_divide v t)) x) r total')
      else if length total' = 1
      then Inr (map (\<lambda>x. map (map (\<lambda>v. np_divide v (hd total'))) x) r)
      else if length r = 1
      then Inr (map (\<lambda>t. map (map (\<lambda>v. np_divide v t)) (hd r)) total')
      else Inl ValueError)"

text \<open>
  \<^verbatim>\<open>SegmentedDetector.detect\<close>. \<^verbatim>\<open>xp.concatenate\<close> raises on an empty list of
  arrays.
\<close>

definition SegmentedDetector_detect ::
  "(complex ndarray \<Rightarrow> complex ndarray) \<Rightarrow> (complex ndarray \<Rightarrow> real ndarray)
     \<Rightarrow> detector \<Rightarrow> waves \<Rightarrow> (error + real option list list list) \<times> detector" where
  "SegmentedDetector_detect fft2 abs2 d w =
     (let intensity = abs2 (fft2 (array w))
      in case get_regions d (gpts w) (angular_sampling w) (Some (min_cutoff w)) of
           (Inl e, d') \<Rightarrow> (Inl e, d')
         | (Inr indices, d') \<Rightarrow>
             let total' = map sum_list (flat intensity);
                 separators = 0 # cumsum (map length indices)
             in if indices = [] then (Inl ValueError, d')
                else
                  (case take_indices_batch (flat intensity) (concat indices) of
                     Inl e \<Rightarrow> (Inl e, d')
                   | Inr gathered \<Rightarrow>
                       let result = sum_run_length_encoded gathered separators
                       in (case nbins_radial_of d' of
                             Inl e \<Rightarrow> (Inl e, d')
                           | Inr nr \<Rightarrow>
                               (case nbins_angular_of d' of
                                  Inl e \<Rightarrow> (Inl e, d')
                                | Inr na \<Rightarrow>
                                    (case reshape3 result nr na of
                                       Inl e \<Rightarrow> (Inl e, d')
                                     | Inr r3 \<Rightarrow> (divide_total r3 total', d'))))))"

subsection \<open>PixelatedDetector\<close>

text \<open>\<^verbatim>\<open>max_angle: Union[str, float]\<close>, or \<^verbatim>\<open>None\<close>.\<close>

datatype max_angle = AngleStr string | AngleNum real | AngleNone

text \<open>\<^verbatim>\<open>resample: Union[str, float] = False\<close>.\<close>

datatype resample = ResampleFalse | ResampleStr string | ResampleNum real

record pixelated_detector =
  max_angle :: max_angle
  resample :: resample

text \<open>\<^verbatim>\<open>PixelatedDetector.__init__\<close> with its defaults \<^verbatim>\<open>'valid'\<close> and \<^verbatim>\<open>False\<close>.\<close>

definition PixelatedDetector_init :: "max_angle option \<Rightarrow> resample option \<Rightarrow> pixelated_detector" where
  "PixelatedDetector_init max_angle' resample' =
     \<lparr> max_angle = (case max_angle' of None \<Rightarrow> AngleStr ''valid'' | Some a \<Rightarrow> a),
       resample = (case resample' of None \<Rightarrow> ResampleFalse | Some r \<Rightarrow> r) \<rparr>"

text \<open>\<^verbatim>\<open>check_max_angle_exceeded\<close>.\<close>

definition check_max_angle_exceeded :: "waves \<Rightarrow> max_angle \<Rightarrow> error + unit" where
  "check_max_angle_exceeded w a =
     (case a of
        AngleStr s \<Rightarrow> Inr ()
      | AngleNone \<Rightarrow> Inr ()
      | AngleNum m \<Rightarrow> if m > min_cutoff w then Inl MaxAngleExceeded else Inr ())"

text \<open>\<^verbatim>\<open>PixelatedDetector._resampled_gpts\<close>.\<close>

definition resampled_gpts ::
  "pixelated_detector \<Rightarrow> int \<times> int \<Rightarrow> real \<times> real \<Rightarrow> error + ((int \<times> int) \<times> (real \<times> real))" where
  "resampled_gpts d gpts' angular_sampling' =
     (case resample d of
        ResampleFalse \<Rightarrow> Inr (gpts', angular_sampling')
      | ResampleNum x \<Rightarrow> Inl UnsupportedResample
      | ResampleStr s \<Rightarrow>
          if s \<noteq> ''uniform'' then Inl UnsupportedResample
          else
            let m = max (fst angular_sampling') (snd angular_sampling')
            in if m = 0 then Inl ZeroDivisionError
               else
                 let scale_factor = (fst angular_sampling' / m, snd angular_sampling' / m);
                     new_gpts = (\<lceil>of_int (fst gpts') * fst scale_factor\<rceil>,
                                 \<lceil>of_int (snd gpts') * snd scale_factor\<rceil>);
                     new_gpts = (if \<bar>fst new_gpts - snd new_gpts\<bar> \<le> 2
                                 then (min (fst new_gpts) (snd new_gpts),
                                       min (fst new_gpts) (snd new_gpts))
                                 else new_gpts)
                 in if fst scale_factor = 0 \<or> snd scale_factor = 0 then Inl ZeroDivisionError
                    else Inr (new_gpts, (fst angular_sampling' / fst scale_factor,
                                         snd angular_sampling' / snd scale_factor)))"

text \<open>
  The allocated measurement: the shape of its zero array and the sampling of the two
  detector axes. \<^verbatim>\<open>Measurement\<close>, \<^verbatim>\<open>calibrations_from_grid\<close> and the write to
  \<^verbatim>\<open>save_file\<close> are external collaborators.
\<close>

record measurement =
  mshape :: "nat list"
  msampling :: "real \<times> real"

text \<open>
  \<^verbatim>\<open>PixelatedDetector.allocate_measurement\<close>. \<^verbatim>\<open>waves.downsampled_gpts\<close> belongs to
  the wave collaborator and is the parameter \<open>downsampled_gpts\<close>; \<open>scan\<close> is the scan
  shape, if any. \<^verbatim>\<open>np.zeros\<close> raises on a negative dimension.
\<close>

definition PixelatedDetector_allocate_measurement ::
  "(max_angle \<Rightarrow> int \<times> int) \<Rightarrow> pixelated_detector \<Rightarrow> waves \<Rightarrow> nat list option
     \<Rightarrow> error + measurement" where
  "PixelatedDetector_allocate_measurement downsampled_gpts d w scan =
     (if \<not> grid_defined w then Inl GridUndefined
      else case check_max_angle_exceeded w (max_angle d) of
        Inl e \<Rightarrow> Inl e
      | Inr _ \<Rightarrow>
          (case resampled_gpts d (downsampled_gpts (max_angle d)) (angular_sampling w) of
             Inl e \<Rightarrow> Inl e
           | Inr (gpts', new_angular_sampling) \<Rightarrow>
               if fst new_angular_sampling = 0 \<or> snd new_angular_sampling = 0
                  \<or> fst gpts' = 0 \<or> snd gpts' = 0 then Inl ZeroDivisionError
               else
                 let sampling = (1 / fst new_angular_sampling / of_int (fst gpts') * wavelength w * 1000,
                                 1 / snd new_angular_sampling / of_int (snd gpts') * wavelength w * 1000);
                     scan_shape = (case scan of None \<Rightarrow> [] | Some sh \<Rightarrow> sh)
                 in if fst gpts' < 0 \<or> snd gpts' < 0 then Inl ValueError
                    else Inr \<lparr> mshape = scan_shape @ [nat (fst gpts'), nat (snd gpts')],
                               msampling = sampling \<rparr>))"

subsection \<open>Device functions for concrete runs\<close>

text \<open>
  Modelled from the spec: the device functions \<^verbatim>\<open>fft2\<close> and \<^verbatim>\<open>abs2\<close> of
  \<^verbatim>\<open>abtem.device\<close> are not under src/. Section 2: wave array, then 2D FFT, then
  squared-magnitude intensity. \<open>fft2_dft\<close> is the discrete Fourier transform over the
  last two axes, \<open>abs2_sq\<close> the squared modulus of every entry.
\<close>

definition dft2_at :: "nat \<times> nat \<Rightarrow> complex list \<Rightarrow> nat \<Rightarrow> nat \<Rightarrow> complex" where
  "dft2_at sh a u v =
     (\<Sum>x\<leftarrow>[0..<fst sh]. \<Sum>y\<leftarrow>[0..<snd sh].
        a ! (x * snd sh + y)
        * cis (- (2 * pi * (real (u * x) / real (fst sh) + real (v * y) / real (snd sh)))))"

definition fft2_dft :: "complex ndarray \<Rightarrow> complex ndarray" where
  "fft2_dft a =
     \<lparr> shape2 = shape2 a,
       flat = map (\<lambda>row. concat (map (\<lambda>u. map (\<lambda>v. dft2_at (shape2 a) row u v)
                                              [0..<snd (shape2 a)]) [0..<fst (shape2 a)]))
                  (flat a) \<rparr>"

definition abs2_sq :: "complex ndarray \<Rightarrow> real ndarray" where
  "abs2_sq a = \<lparr> shape2 = shape2 a, flat = map (map (\<lambda>z. (cmod z)\<^sup>2)) (flat a) \<rparr>"

subsection \<open>Example inputs\<close>

text \<open>
  One wave on a grid of 4 by 1 points with an angular sampling of 1000 mrad per point
  (frequencies 0, 1, -2, -1 rad along \<open>kx\<close>); its array is a unit impulse at the
  origin, whose Fourier transform has the same intensity 1 in every cell.
\<close>

definition w_example :: waves where
  "w_example = \<lparr> array = \<lparr> shape2 = (4, 1), flat = [[1, 0, 0, 0]] \<rparr>, gpts = (4, 1),
       angular_sampling = (1000, 1000), cutoff_scattering_angles = (5000, 6000),
       wavelength = 1, grid_defined = True \<rparr>"

text \<open>Two waves: the same impulse, and twice the impulse.\<close>

definition w_example2 :: waves where
  "w_example2 = w_example\<lparr> array := \<lparr> shape2 = (4, 1), flat = [[1, 0, 0, 0], [2, 0, 0, 0]] \<rparr> \<rparr>"

text \<open>
  \<^verbatim>\<open>AnnularDetector(0, 1500)\<close> after \<^verbatim>\<open>outer = 3000\<close>: the setter leaves
  \<open>radial_steps\<close> at the width given to the constructor.
\<close>

definition annular_mutated :: detector where
  "annular_mutated = \<lparr> inner = Some 0, outer = Some 3000, radial_steps = 1500,
       azimuthal_steps = 2 * pi, max_detected_angle = Some 3000, cache = None \<rparr>"

text \<open>
  What \<^verbatim>\<open>SegmentedDetector(0, 8000, 2, 1)\<close>, \<^verbatim>\<open>SegmentedDetector(0, 2000, 2, 1)\<close> and
  \<^verbatim>\<open>SegmentedDetector(0, 3000, 2, 1)\<close> construct.
\<close>

definition segmented_wide :: detector where
  "segmented_wide = PolarDetector_init (Some 0) (Some 8000) 4000 (Some (2 * pi))"

definition segmented_edge :: detector where
  "segmented_edge = PolarDetector_init (Some 0) (Some 2000) 1000 (Some (2 * pi))"

definition segmented_fit :: detector where
  "segmented_fit = PolarDetector_init (Some 0) (Some 3000) 1500 (Some (2 * pi))"

text \<open>What \<^verbatim>\<open>SegmentedDetector(0, 2000, 2, 2)\<close> constructs: two rings of two half-planes.\<close>

definition segmented_halves :: detector where
  "segmented_halves = PolarDetector_init (Some 0) (Some 2000) 1000 (Some pi)"

section \<open>Properties\<close>

subsection \<open>The grouper, label by label\<close>

lemma takeWhile_lt_nil: "sorted (map f (x # xs)) \<Longrightarrow> v \<le> f x \<Longrightarrow> takeWhile (\<lambda>y. y < (v::int)) (map f xs) = []"
  by (cases xs) auto

lemma sorted_slice:
  "sorted (map f xs) \<Longrightarrow>
   slice xs (length (takeWhile (\<lambda>y. y < (v::int)) (map f xs))) (length (takeWhile (\<lambda>y. y \<le> v) (map f xs)))
   = filter (\<lambda>i. f i = v) xs"
proof (induction xs)
  case Nil
  then show ?case by (simp add: slice_def)
next
  case (Cons x xs)
  then have IH: "slice xs (length (takeWhile (\<lambda>y. y < v) (map f xs))) (length (takeWhile (\<lambda>y. y \<le> v) (map f xs)))
   = filter (\<lambda>i. f i = v) xs" by simp
  consider "f x < v" | "f x = v" | "v < f x" by linarith
  then show ?case
  proof cases
    case 1
    then show ?thesis using IH by (simp add: slice_def)
  next
    case 2
    have "takeWhile (\<lambda>y. y < v) (map f xs) = []"
      using takeWhile_lt_nil[OF Cons.prems] 2 by simp
    then show ?thesis using IH 2 by (simp add: slice_def)
  next
    case 3
    have "\<forall>i \<in> set xs. f x \<le> f i" using Cons.prems by auto
    then have "filter (\<lambda>i. f i = v) xs = []" using 3 by (auto simp: filter_empty_conv)
    then show ?thesis using 3 by (simp add: slice_def)
  qed
qed

lemma np_max_Max:
  assumes "np_max xs = Inr m"
  shows "xs \<noteq> [] \<and> m = Max (set xs)"
proof (cases xs)
  case Nil
  then show ?thesis using assms by simp
next
  case (Cons a list)
  then show ?thesis using assms Max.set_eq_fold[of a list] by auto
qed

lemma argsort_bound: "i \<in> set (argsort labels) \<Longrightarrow> i < length labels"
  by (simp add: argsort_def)

lemma indices_id: "map (\<lambda>i. [0..<length labels + 1] ! i) (argsort labels) = argsort labels"
proof -
  have "\<And>i. i \<in> set (argsort labels) \<Longrightarrow> [0..<length labels + 1] ! i = i"
    using argsort_bound[of _ labels] by (metis add_0 less_SucI nth_upt Suc_eq_plus1)
  then show ?thesis by (simp add: map_idI)
qed

lemma group_of_label:
  "slice (argsort labels) (searchsorted_left (map (\<lambda>i. labels ! i) (argsort labels)) v)
      (searchsorted_right (map (\<lambda>i. labels ! i) (argsort labels)) v)
   = filter (\<lambda>i. labels ! i = v) [0..<length labels]"
proof -
  have "sorted (map (\<lambda>i. labels ! i) (argsort labels))" by (simp add: argsort_def)
  from sorted_slice[OF this, of v]
  show ?thesis by (simp add: searchsorted_left_def searchsorted_right_def argsort_def sort_key_stable)
qed

lemma map_zip_same:
  "map (\<lambda>(l, h). F l h) (zip (map f xs) (map g xs)) = map (\<lambda>v. F (f v) (g v)) xs"
  by (induction xs) auto

lemma label_to_index_eq:
  "label_to_index L =
     (case np_max (concat L) of Inl e \<Rightarrow> Inl e
      | Inr m \<Rightarrow> Inr (map (\<lambda>v. filter (\<lambda>i. concat L ! i = v) [0..<length (concat L)]) (arange (m + 1))))"
  unfolding label_to_index_def Let_def indices_id map_zip_same group_of_label
  by (rule refl)

subsection \<open>Labels of valid cells\<close>

lemma concat_map_product:
  "concat (map (\<lambda>x. map (\<lambda>y. f x y) ys) xs) = map (\<lambda>(x, y). f x y) (List.product xs ys)"
  by (induction xs) auto

lemma polar_regions_flat:
  assumes "polar_regions g ang inner' outer' nr na = Inr labels"
  shows "concat labels = map (\<lambda>(ax, ay). cell_label inner' outer' nr na ax ay) (frequency_grid g ang)"
  using assms
  by (auto simp: polar_regions_def frequency_grid_def Let_def concat_map_product split: if_splits prod.splits)

lemma trunc_nonneg: "0 \<le> x \<Longrightarrow> 0 \<le> trunc x"
  by (simp add: trunc_def)

lemma radial_bin_nonneg:
  assumes "inner' < outer'" "0 \<le> nr" "inner' \<le> a"
  shows "0 \<le> radial_bin inner' outer' nr a"
proof -
  have "0 \<le> of_int nr * (a - inner') / (outer' - inner')" using assms by simp
  then show ?thesis using assms by (simp add: radial_bin_def trunc_nonneg)
qed

lemma trunc_of_int: "trunc (of_int k) = k"
  by (simp add: trunc_def)

lemma angular_bin_eq:
  "angular_bin na t = min (max \<lfloor>of_int na * (t / (2 * pi))\<rfloor> 0) (na - 1)"
proof -
  have "clip (of_int \<lfloor>of_int na * (t / (2 * pi))\<rfloor>) 0 (of_int (na - 1))
        = of_int (min (max \<lfloor>of_int na * (t / (2 * pi))\<rfloor> 0) (na - 1))"
    unfolding clip_def by (simp only: of_int_min of_int_max of_int_0)
  then show ?thesis unfolding angular_bin_def by (simp only: trunc_of_int)
qed

lemma angular_bin_range:
  assumes "0 < na"
  shows "0 \<le> angular_bin na t \<and> angular_bin na t \<le> na - 1"
proof -
  have "0 \<le> min (max F 0) (na - 1) \<and> min (max F 0) (na - 1) \<le> na - 1" for F :: int
    using assms by linarith
  then show ?thesis unfolding angular_bin_eq by blast
qed

lemma cell_label_nonneg_iff:
  assumes "inner' < outer'" "0 \<le> nr" "0 < na"
  shows "0 \<le> cell_label inner' outer' nr na ax ay \<longleftrightarrow> valid inner' outer' (alpha_of ax ay)"
proof (cases "valid inner' outer' (alpha_of ax ay)")
  case True
  then have "0 \<le> radial_bin inner' outer' nr (alpha_of ax ay)"
    using radial_bin_nonneg[of inner' outer' nr] assms by (simp add: valid_def)
  then have "0 \<le> radial_bin inner' outer' nr (alpha_of ax ay) * na" using assms by simp
  moreover have "outer' - inner' \<noteq> 0" using assms(1) by simp
  ultimately show ?thesis using True angular_bin_range[OF assms(3), of "angle_of ax ay"]
    by (simp add: cell_label_def)
next
  case False
  then show ?thesis by (simp add: cell_label_def)
qed

lemma set_arange: "set (arange m) = {v. 0 \<le> v \<and> v < m}"
proof (rule set_eqI)
  fix v :: int
  show "v \<in> set (arange m) \<longleftrightarrow> v \<in> {v. 0 \<le> v \<and> v < m}"
  proof
    assume "v \<in> set (arange m)"
    then obtain k where "k < nat m" "v = int k" by (auto simp: arange_def)
    then show "v \<in> {v. 0 \<le> v \<and> v < m}" by auto
  next
    assume "v \<in> {v. 0 \<le> v \<and> v < m}"
    then have "nat v < nat m" "v = int (nat v)" by auto
    then show "v \<in> set (arange m)" unfolding arange_def by (metis atLeast0LessThan image_eqI lessThan_iff set_map set_upt)
  qed
qed

lemma groups_union:
  fixes L :: "int list"
  shows "(\<Union>g \<in> set (map (\<lambda>v. filter (\<lambda>i. L ! i = v) [0..<length L]) (arange (Max (set L) + 1))). set g)
         = {i. i < length L \<and> 0 \<le> L ! i}"
proof -
  have *: "L ! i < Max (set L) + 1" if "i < length L" for i
  proof -
    have "L ! i \<le> Max (set L)" using that by simp
    then show ?thesis by linarith
  qed
  show ?thesis using * by (auto simp: set_arange)
qed

lemma distinct_groups:
  "distinct vs \<Longrightarrow> distinct xs \<Longrightarrow> distinct (concat (map (\<lambda>v. filter (\<lambda>i. f i = v) xs) vs))"
  by (induction vs) auto

lemma length_fftfreq: "length (fftfreq n d) = n"
  by (simp add: fftfreq_def)

lemma length_frequency_grid: "length (frequency_grid g ang) = fst g * snd g"
  by (simp add: frequency_grid_def spatial_frequencies_def length_fftfreq)

lemma length_alpha_grid: "length (alpha_grid g ang) = fst g * snd g"
  by (simp add: alpha_grid_def length_frequency_grid)

lemma distinct_arange: "distinct (arange m)"
  by (simp add: arange_def distinct_map inj_on_def)

lemma label_to_index_Inr:
  assumes "label_to_index L = Inr groups"
  shows "concat L \<noteq> []"
    and "groups = map (\<lambda>v. filter (\<lambda>i. concat L ! i = v) [0..<length (concat L)])
                      (arange (Max (set (concat L)) + 1))"
proof -
  obtain m where m: "np_max (concat L) = Inr m"
    using assms unfolding label_to_index_eq by (cases "np_max (concat L)") auto
  from np_max_Max[OF m] show "concat L \<noteq> []" by simp
  from np_max_Max[OF m] assms m
  show "groups = map (\<lambda>v. filter (\<lambda>i. concat L ! i = v) [0..<length (concat L)])
                      (arange (Max (set (concat L)) + 1))"
    unfolding label_to_index_eq by simp
qed

lemma groups_disjoint:
  assumes "groups = map (\<lambda>v. filter (\<lambda>i. f i = v) xs) (arange m)"
      and "a < length groups" "b < length groups" "a \<noteq> b"
  shows "set (groups ! a) \<inter> set (groups ! b) = {}"
proof -
  have "arange m ! a \<noteq> arange m ! b"
    using assms distinct_arange[of m] by (simp add: nth_eq_iff_index_eq)
  then show ?thesis using assms by auto
qed

subsection \<open>Evaluation on small grids\<close>

text \<open>On a grid of one column, \<open>ky = 0\<close> and the radial magnitude is \<open>\<bar>kx\<bar>\<close>.\<close>

lemma alpha_of_axis: "alpha_of x 0 = \<bar>x\<bar>"
  by (simp add: alpha_of_def)

lemmas polar_eval = polar_regions_def spatial_frequencies_def fftfreq_def upt_rec cell_label_def
   alpha_of_axis valid_def radial_bin_def angular_bin_eq angle_of_def trunc_def arctan2_def np_mod_def

lemmas group_eval = label_to_index_def argsort_def searchsorted_left_def searchsorted_right_def
   arange_def slice_def upt_rec

lemma labels_4x1_two_rings: "polar_regions (4, 1) (1, 1) 0 2 2 1 = Inr [[0], [1], [2], [1]]"
  by (simp add: polar_eval)

lemma groups_4x1_two_rings: "label_to_index [[0], [1], [2], [1]] = Inr [[0], [1, 3], [2]]"
  by (simp add: group_eval)

subsection \<open>The regions partition the valid cells\<close>

text \<open>
  The groups that the grouper computes from the labels of the labeler: their union is
  the set of flat indices of the valid cells, and two different groups share no index.
\<close>

lemma labels_groups_partition:
  assumes "inner' < outer'" and "0 \<le> nr" and "0 < na"
      and "polar_regions g ang inner' outer' nr na = Inr labels"
      and "label_to_index labels = Inr groups"
  shows "(\<Union>r \<in> set groups. set r)
           = {i. i < fst g * snd g \<and> inner' \<le> alpha_grid g ang ! i \<and> alpha_grid g ang ! i \<le> outer'}
         \<and> (\<forall>a < length groups. \<forall>b < length groups. a \<noteq> b \<longrightarrow>
               set (groups ! a) \<inter> set (groups ! b) = {})"
proof -
  let ?L = "concat labels"
  have flat: "?L = map (\<lambda>(ax, ay). cell_label inner' outer' nr na ax ay) (frequency_grid g ang)"
    by (rule polar_regions_flat[OF assms(4)])
  have len: "length ?L = fst g * snd g"
    by (simp add: flat length_frequency_grid)
  have groups: "groups = map (\<lambda>v. filter (\<lambda>i. ?L ! i = v) [0..<length ?L]) (arange (Max (set ?L) + 1))"
    by (rule label_to_index_Inr(2)[OF assms(5)])
  have cell: "0 \<le> ?L ! i \<longleftrightarrow> inner' \<le> alpha_grid g ang ! i \<and> alpha_grid g ang ! i \<le> outer'"
    if "i < fst g * snd g" for i
  proof -
    obtain ax ay where p: "frequency_grid g ang ! i = (ax, ay)" by (cases "frequency_grid g ang ! i")
    have "?L ! i = cell_label inner' outer' nr na ax ay"
      using that p by (simp add: flat length_frequency_grid)
    moreover have "alpha_grid g ang ! i = alpha_of ax ay"
      using that p by (simp add: alpha_grid_def length_frequency_grid)
    ultimately show ?thesis
      using cell_label_nonneg_iff[OF assms(1-3), of ax ay] by (simp add: valid_def)
  qed
  have "(\<Union>r \<in> set groups. set r) = {i. i < length ?L \<and> 0 \<le> ?L ! i}"
    unfolding groups by (rule groups_union)
  also have "\<dots> = {i. i < fst g * snd g \<and> inner' \<le> alpha_grid g ang ! i \<and> alpha_grid g ang ! i \<le> outer'}"
    using cell by (auto simp: len)
  finally have union: "(\<Union>r \<in> set groups. set r)
      = {i. i < fst g * snd g \<and> inner' \<le> alpha_grid g ang ! i \<and> alpha_grid g ang ! i \<le> outer'}" .
  have "\<forall>a < length groups. \<forall>b < length groups. a \<noteq> b \<longrightarrow>
               set (groups ! a) \<inter> set (groups ! b) = {}"
    using groups_disjoint[OF groups] by blast
  with union show ?thesis by blast
qed

subsection \<open>The label of a cell\<close>

lemma polar_regions_nth:
  assumes "polar_regions g ang inner' outer' nr na = Inr labels" and "ix < fst g" and "iy < snd g"
  shows "labels ! ix ! iy
         = cell_label inner' outer' nr na
             (fftfreq (fst g) (1 / fst ang / real (fst g)) ! ix)
             (fftfreq (snd g) (1 / snd ang / real (snd g)) ! iy)"
  using assms
  by (auto simp: polar_regions_def spatial_frequencies_def Let_def length_fftfreq split: if_splits)

lemma radial_bin_floor:
  assumes "inner' < outer'" and "0 \<le> nr" and "inner' \<le> a"
  shows "radial_bin inner' outer' nr a = \<lfloor>of_int nr * (a - inner') / (outer' - inner')\<rfloor>"
proof -
  have "0 \<le> of_int nr * (a - inner') / (outer' - inner')" using assms by simp
  then show ?thesis using assms by (simp add: radial_bin_def trunc_def)
qed

text \<open>
  C2. For every grid cell \<open>(ix, iy)\<close>, \<^verbatim>\<open>_polar_regions\<close> assigns the label \<open>-1\<close> when
  \<open>alpha\<close> is outside \<open>[inner, outer]\<close>, and for a valid cell the label
  \<open>azimuthal + radial * nbins_azimuthal\<close>, where \<open>radial\<close> is
  \<open>floor(nbins_radial * (alpha - inner) / (outer - inner))\<close>, not clipped (a cell with
  \<open>alpha = outer\<close> has radial bin \<open>nbins_radial\<close>), and \<open>azimuthal\<close> is
  \<open>floor(nbins_azimuthal * ((atan2(kx, ky) mod 2\<pi>) / (2\<pi>)))\<close> clipped to
  \<open>[0, nbins_azimuthal - 1]\<close>.
\<close>

theorem polar_regions_label:
  assumes "polar_regions g ang inner' outer' nr na = Inr labels"
      and "ix < fst g" and "iy < snd g" and "0 \<le> nr"
  shows "let kx = fftfreq (fst g) (1 / fst ang / real (fst g)) ! ix;
             ky = fftfreq (snd g) (1 / snd ang / real (snd g)) ! iy;
             alpha = sqrt (kx\<^sup>2 + ky\<^sup>2);
             radial = \<lfloor>of_int nr * (alpha - inner') / (outer' - inner')\<rfloor>;
             azimuthal = min (max \<lfloor>of_int na * (np_mod (arctan2 kx ky) (2 * pi) / (2 * pi))\<rfloor> 0) (na - 1)
         in (\<not> (inner' \<le> alpha \<and> alpha \<le> outer') \<longrightarrow> labels ! ix ! iy = - 1)
          \<and> (inner' \<le> alpha \<and> alpha \<le> outer' \<and> inner' < outer' \<longrightarrow>
                labels ! ix ! iy = azimuthal + radial * na)
          \<and> (alpha = outer' \<and> inner' < outer' \<longrightarrow> radial = nr)"
proof -
  define kx where "kx = fftfreq (fst g) (1 / fst ang / real (fst g)) ! ix"
  define ky where "ky = fftfreq (snd g) (1 / snd ang / real (snd g)) ! iy"
  have lab: "labels ! ix ! iy = cell_label inner' outer' nr na kx ky"
    unfolding kx_def ky_def by (rule polar_regions_nth[OF assms(1-3)])
  have inv: "labels ! ix ! iy = - 1" if "\<not> (inner' \<le> alpha_of kx ky \<and> alpha_of kx ky \<le> outer')"
    using that unfolding lab cell_label_def valid_def by auto
  have val: "labels ! ix ! iy
             = min (max \<lfloor>of_int na * (np_mod (arctan2 kx ky) (2 * pi) / (2 * pi))\<rfloor> 0) (na - 1)
               + \<lfloor>of_int nr * (alpha_of kx ky - inner') / (outer' - inner')\<rfloor> * na"
    if "inner' \<le> alpha_of kx ky" "alpha_of kx ky \<le> outer'" "inner' < outer'"
    using that radial_bin_floor[OF that(3) assms(4) that(1)]
    by (simp add: lab cell_label_def valid_def angular_bin_eq angle_of_def)
  have top: "\<lfloor>of_int nr * (alpha_of kx ky - inner') / (outer' - inner')\<rfloor> = nr"
    if "alpha_of kx ky = outer'" "inner' < outer'"
    using that by simp
  show ?thesis
    unfolding Let_def kx_def[symmetric] ky_def[symmetric] alpha_of_def[symmetric]
    using inv val top by blast
qed

theorem polar_regions_label_witness:
  "polar_regions (4, 1) (1, 1) 0 2 2 1 = Inr [[0], [1], [2], [1]]
   \<and> (2::nat) < fst (4::nat, 1::nat) \<and> (0::nat) < snd (4::nat, 1::nat) \<and> (0::int) \<le> 2
   \<and> (let kx = fftfreq 4 (1 / 1 / real 4) ! 2;
           ky = fftfreq 1 (1 / 1 / real 1) ! 0;
           alpha = sqrt (kx\<^sup>2 + ky\<^sup>2)
       in alpha = 2 \<and> [[0], [1], [2], [1::int]] ! 2 ! 0 = 0 + 2 * 1)"
proof -
  have pr: "polar_regions (4, 1) (1, 1) 0 2 2 1 = Inr [[0], [1], [2], [1]]"
    by (simp add: polar_eval)
  show ?thesis
    using polar_regions_label[OF pr, of 2 0] pr by (simp add: Let_def fftfreq_def upt_rec)
qed

subsection \<open>The bins of a detector without an outer limit\<close>

text \<open>
  C9. When the outer limit of a \<^verbatim>\<open>_PolarDetector\<close> is unset and a cutoff scattering
  angle is given, the outer integration angle is the cutoff rounded down to a multiple
  of \<open>radial_steps\<close>, \<open>floor(cutoff / radial_steps) * radial_steps\<close>, and the number of
  radial bins is \<open>ceil((outer - inner) / radial_steps)\<close>.
\<close>

theorem get_bins_outer_unset:
  assumes "outer d = None" and "radial_steps d \<noteq> 0" and "azimuthal_steps d \<noteq> 0"
  shows "let inner' = (case inner d of None \<Rightarrow> 0 | Some v \<Rightarrow> v);
             outer' = of_int \<lfloor>cutoff / radial_steps d\<rfloor> * radial_steps d
         in get_bins d (Some cutoff)
            = Inr (\<lceil>(outer' - inner') / radial_steps d\<rceil>, \<lceil>2 * pi / azimuthal_steps d\<rceil>,
                   inner', outer')"
  using assms by (simp add: get_bins_def py_div_def Let_def)

theorem get_bins_outer_unset_witness:
  "outer (PolarDetector_init None None 2 None) = None
   \<and> radial_steps (PolarDetector_init None None 2 None) \<noteq> 0
   \<and> azimuthal_steps (PolarDetector_init None None 2 None) \<noteq> 0
   \<and> get_bins (PolarDetector_init None None 2 None) (Some 7) = Inr (3, 1, 0, 6)"
  using get_bins_outer_unset[of "PolarDetector_init None None 2 None" 7]
  by (simp add: PolarDetector_init_def Let_def)

subsection \<open>The maximum detection angle of the pixelated detector\<close>

text \<open>
  C8. For a wave descriptor whose grid is defined and a numeric \<open>max_angle\<close> above the
  smaller of the two cutoff scattering angles, \<^verbatim>\<open>check_max_angle_exceeded\<close> and
  therefore \<^verbatim>\<open>PixelatedDetector.allocate_measurement\<close> raise the max-angle error.
\<close>

theorem max_angle_exceeded_raises:
  assumes "grid_defined w" and "max_angle d = AngleNum a"
      and "a > min (fst (cutoff_scattering_angles w)) (snd (cutoff_scattering_angles w))"
  shows "check_max_angle_exceeded w (max_angle d) = Inl MaxAngleExceeded
         \<and> PixelatedDetector_allocate_measurement downsampled_gpts d w scan = Inl MaxAngleExceeded"
  using assms
  by (simp add: PixelatedDetector_allocate_measurement_def check_max_angle_exceeded_def min_cutoff_def)

theorem max_angle_exceeded_raises_witness:
  "grid_defined w_example
   \<and> max_angle (PixelatedDetector_init (Some (AngleNum 5500)) None) = AngleNum 5500
   \<and> 5500 > min (fst (cutoff_scattering_angles w_example)) (snd (cutoff_scattering_angles w_example))
   \<and> PixelatedDetector_allocate_measurement (\<lambda>a. (4, 1))
        (PixelatedDetector_init (Some (AngleNum 5500)) None) w_example None = Inl MaxAngleExceeded"
  using max_angle_exceeded_raises[of w_example "PixelatedDetector_init (Some (AngleNum 5500)) None" 5500
          "\<lambda>a. (4, 1)" None]
  by (simp add: w_example_def PixelatedDetector_init_def)

lemma resampled_gpts_errors:
  assumes "resampled_gpts d g a = Inl e"
  shows "e = UnsupportedResample \<or> e = ZeroDivisionError"
proof (cases "resample d")
  case ResampleFalse
  then show ?thesis using assms by (simp add: resampled_gpts_def)
next
  case (ResampleStr s)
  then show ?thesis using assms
    by (simp add: resampled_gpts_def Let_def split: if_splits)
next
  case (ResampleNum x)
  then show ?thesis using assms by (simp add: resampled_gpts_def)
qed

text \<open>
  C10. When \<open>max_angle\<close> is a string, \<^verbatim>\<open>check_max_angle_exceeded\<close> returns without a
  comparison, and \<^verbatim>\<open>PixelatedDetector.allocate_measurement\<close> never raises the
  max-angle error, whatever the cutoff scattering angles of the waves.
\<close>

theorem string_max_angle_never_exceeded:
  assumes "max_angle d = AngleStr s"
  shows "check_max_angle_exceeded w (max_angle d) = Inr ()
   \<and> PixelatedDetector_allocate_measurement downsampled_gpts d w scan \<noteq> Inl MaxAngleExceeded"
proof -
  have chk: "check_max_angle_exceeded w (max_angle d) = Inr ()"
    using assms by (simp add: check_max_angle_exceeded_def)
  have "PixelatedDetector_allocate_measurement downsampled_gpts d w scan \<noteq> Inl MaxAngleExceeded"
  proof (cases "resampled_gpts d (downsampled_gpts (max_angle d)) (angular_sampling w)")
    case (Inl e)
    then show ?thesis using resampled_gpts_errors[OF Inl] chk
      by (auto simp: PixelatedDetector_allocate_measurement_def)
  next
    case (Inr r)
    obtain g' a' where r: "r = (g', a')" by (cases r)
    show ?thesis unfolding PixelatedDetector_allocate_measurement_def chk Inr r
      by (simp add: Let_def)
  qed
  with chk show ?thesis by blast
qed

theorem string_max_angle_never_exceeded_witness:
  "max_angle (PixelatedDetector_init None None) = AngleStr ''valid''
   \<and> check_max_angle_exceeded (w_example\<lparr>cutoff_scattering_angles := (0, 0)\<rparr>)
        (max_angle (PixelatedDetector_init None None)) = Inr ()
   \<and> PixelatedDetector_allocate_measurement (\<lambda>a. (4, 1)) (PixelatedDetector_init None None)
        (w_example\<lparr>cutoff_scattering_angles := (0, 0)\<rparr>) None
       = Inr \<lparr> mshape = [4, 1], msampling = (1 / 4, 1) \<rparr>"
  using string_max_angle_never_exceeded[of "PixelatedDetector_init None None" "''valid''"
          "w_example\<lparr>cutoff_scattering_angles := (0, 0)\<rparr>" "\<lambda>a. (4, 1)" None]
  by (simp add: w_example_def PixelatedDetector_init_def PixelatedDetector_allocate_measurement_def
        resampled_gpts_def)

subsection \<open>The zero-size guard\<close>

lemma get_bins_cache: "get_bins (d\<lparr>cache := x\<rparr>) c = get_bins d c"
  by (simp add: get_bins_def Let_def cong: option.case_cong sum.case_cong)

lemma get_regions_body_cache: "get_regions_body (d\<lparr>cache := x\<rparr>) g a c = get_regions_body d g a c"
  by (simp add: get_regions_body_def get_bins_cache)

lemma all_invalid_labels:
  assumes "polar_regions g ang i o' nr na = Inr labels"
      and "\<forall>a \<in> set (alpha_grid g ang). \<not> (i \<le> a \<and> a \<le> o')"
  shows "list_all (\<lambda>l. l = - 1) (concat labels)"
proof -
  have flat: "concat labels = map (\<lambda>(ax, ay). cell_label i o' nr na ax ay) (frequency_grid g ang)"
    by (rule polar_regions_flat[OF assms(1)])
  have "cell_label i o' nr na ax ay = - 1" if "(ax, ay) \<in> set (frequency_grid g ang)" for ax ay
  proof -
    have "alpha_of ax ay \<in> set (alpha_grid g ang)"
      using that by (force simp: alpha_grid_def)
    then show ?thesis using assms(2) unfolding cell_label_def valid_def by auto
  qed
  then show ?thesis by (auto simp: flat list_all_iff)
qed

lemma polar_regions_returns:
  assumes "fst g \<noteq> 0" "snd g \<noteq> 0" "fst ang \<noteq> 0" "snd ang \<noteq> 0"
  shows "\<exists>labels. polar_regions g ang i o' nr na = Inr labels"
  using assms by (simp add: polar_regions_def Let_def split: prod.splits)

lemma zero_sized_body:
  assumes "get_bins d cutoff = Inr (nr, na, i, o')"
      and "fst g \<noteq> 0" "snd g \<noteq> 0" "fst ang \<noteq> 0" "snd ang \<noteq> 0"
      and "\<forall>a \<in> set (alpha_grid g (fst ang / 1000, snd ang / 1000)). \<not> (i / 1000 \<le> a \<and> a \<le> o' / 1000)"
  shows "get_regions_body d g ang cutoff = Inl ZeroSizedRegion"
proof -
  obtain labels where l: "polar_regions g (fst ang / 1000, snd ang / 1000) (i / 1000) (o' / 1000) nr na = Inr labels"
    using polar_regions_returns[of g "(fst ang / 1000, snd ang / 1000)" "i / 1000" "o' / 1000" nr na]
      assms(2-5) by auto
  from all_invalid_labels[OF l assms(6)] show ?thesis
    by (simp add: get_regions_body_def assms(1) l)
qed

lemma get_regions_no_entry:
  assumes "\<forall>v. cache d \<noteq> Some ((g, ang, c), v)"
  shows "get_regions d g ang c
         = (case get_regions_body d g ang c of
              Inl e \<Rightarrow> (Inl e, d)
            | Inr v \<Rightarrow> (Inr v, d\<lparr>cache := Some ((g, ang, c), v)\<rparr>))"
  using assms by (auto simp: get_regions_def Let_def split: option.splits)

text \<open>
  When the guard is reached: the bins are computed, the sampling is computable, no
  entry is stored for the key and every grid cell is invalid. Then computing the
  regions raises the zero-sized-region error, and so do \<^verbatim>\<open>_integrate_array\<close> and the
  \<^verbatim>\<open>detect\<close> of the annular and segmented detectors; the detector is left unchanged.
\<close>

lemma zero_size_guard:
  assumes "\<forall>v. cache d \<noteq> Some ((g, ang, cutoff), v)"
      and "get_bins d cutoff = Inr (nr, na, i, o')"
      and "fst g \<noteq> 0" and "snd g \<noteq> 0" and "fst ang \<noteq> 0" and "snd ang \<noteq> 0"
      and "\<forall>a \<in> set (alpha_grid g (fst ang / 1000, snd ang / 1000)).
             \<not> (i / 1000 \<le> a \<and> a \<le> o' / 1000)"
  shows "get_regions d g ang cutoff = (Inl ZeroSizedRegion, d)"
    and "shape2 arr = g \<Longrightarrow>
            integrate_array d arr ang cutoff normalize' = (Inl ZeroSizedRegion, d)"
    and "shape2 (abs2 (fft2 (array w))) = g \<Longrightarrow> angular_sampling w = ang \<Longrightarrow> cutoff = Some (min_cutoff w) \<Longrightarrow>
            AnnularDetector_detect fft2 abs2 d w normalize' = (Inl ZeroSizedRegion, d)"
    and "gpts w = g \<Longrightarrow> angular_sampling w = ang \<Longrightarrow> cutoff = Some (min_cutoff w) \<Longrightarrow>
            SegmentedDetector_detect fft2 abs2 d w = (Inl ZeroSizedRegion, d)"
proof -
  have body: "get_regions_body d g ang cutoff = Inl ZeroSizedRegion"
    by (rule zero_sized_body[OF assms(2-7)])
  show gr: "get_regions d g ang cutoff = (Inl ZeroSizedRegion, d)"
    unfolding get_regions_no_entry[OF assms(1)] body by simp
  show ia: "integrate_array d arr ang cutoff normalize' = (Inl ZeroSizedRegion, d)" if "shape2 arr = g" for arr
    using that by (simp add: integrate_array_def gr)
  show "AnnularDetector_detect fft2 abs2 d w normalize' = (Inl ZeroSizedRegion, d)"
    if "shape2 (abs2 (fft2 (array w))) = g" "angular_sampling w = ang" "cutoff = Some (min_cutoff w)"
    using ia[OF that(1)] that(2,3) by (simp add: AnnularDetector_detect_def Let_def)
  show "SegmentedDetector_detect fft2 abs2 d w = (Inl ZeroSizedRegion, d)"
    if "gpts w = g" "angular_sampling w = ang" "cutoff = Some (min_cutoff w)"
    using gr that by (simp add: SegmentedDetector_detect_def Let_def)
qed

subsection \<open>Concrete runs on the 4 by 1 grid\<close>

lemma min_cutoff_example: "min_cutoff w_example = 5000"
  by (simp add: min_cutoff_def w_example_def)

lemma intensity_example:
  "abs2_sq (fft2_dft (array w_example)) = \<lparr> shape2 = (4, 1), flat = [[1, 1, 1, 1]] \<rparr>"
  by (simp add: w_example_def abs2_sq_def fft2_dft_def dft2_at_def upt_rec)

lemma alpha_grid_4x1: "alpha_grid (4, 1) (1, 1) = [0, 1, 2, 1]"
  by (simp add: alpha_grid_def frequency_grid_def spatial_frequencies_def fftfreq_def upt_rec
        alpha_of_axis)


lemma bins_annular:
  "i \<noteq> o' \<Longrightarrow> get_bins (AnnularDetector_init i o') c = Inr (1, 1, i, o')"
  by (simp add: get_bins_def AnnularDetector_init_def PolarDetector_init_def py_div_def)

lemma bins_annular_degenerate:
  "get_bins (AnnularDetector_init i i) c = Inl ZeroDivisionError"
  by (simp add: get_bins_def AnnularDetector_init_def PolarDetector_init_def py_div_def)

lemma labels_annular_2000: "polar_regions (4, 1) (1, 1) 0 2 1 1 = Inr [[0], [0], [1], [0]]"
  by (simp add: polar_eval)

lemma labels_annular_3000: "polar_regions (4, 1) (1, 1) 0 3 1 1 = Inr [[0], [0], [0], [0]]"
  by (simp add: polar_eval)

lemma labels_annular_1500: "polar_regions (4, 1) (1, 1) 0 (3/2) 1 1 = Inr [[0], [0], [-1], [0]]"
  by (simp add: polar_eval)

lemma labels_stale_3000: "polar_regions (4, 1) (1, 1) 0 3 2 1 = Inr [[0], [0], [1], [0]]"
  by (simp add: polar_eval)

lemma labels_top_empty: "polar_regions (4, 1) (1, 1) 0 8 2 1 = Inr [[0], [0], [0], [0]]"
  by (simp add: polar_eval)

lemma labels_2x2: "polar_regions (4, 1) (1, 1) 0 2 2 2 = Inr [[0], [2], [5], [3]]"
  by (simp add: polar_eval)

lemma groups_0010: "label_to_index [[0], [0], [1], [0]] = Inr [[0, 1, 3], [2]]"
  by (simp add: group_eval)

lemma groups_0000: "label_to_index [[0], [0], [0], [0]] = Inr [[0, 1, 2, 3]]"
  by (simp add: group_eval)

lemma groups_00m0: "label_to_index [[0], [0], [-1], [0]] = Inr [[0, 1, 3]]"
  by (simp add: group_eval)

lemma groups_0253: "label_to_index [[0], [2], [5], [3]] = Inr [[0], [], [1], [3], [], [2]]"
  by (simp add: group_eval)

lemma regions_body_eval:
  assumes "get_bins d c = Inr (nr, na, i, o')"
      and "polar_regions g (fst ang / 1000, snd ang / 1000) (i / 1000) (o' / 1000) nr na = Inr labels"
      and "\<not> list_all (\<lambda>l. l = - 1) (concat labels)"
      and "label_to_index labels = Inr groups"
  shows "get_regions_body d g ang c = Inr groups"
  using assms by (simp add: get_regions_body_def)

lemma get_regions_miss:
  assumes "cache d = None" and "get_regions_body d g ang c = Inr groups"
  shows "get_regions d g ang c = (Inr groups, d\<lparr>cache := Some ((g, ang, c), groups)\<rparr>)"
  using assms by (simp add: get_regions_def)

lemma get_regions_error:
  assumes "cache d = None" and "get_regions_body d g ang c = Inl e"
  shows "get_regions d g ang c = (Inl e, d)"
  using assms by (simp add: get_regions_def)

lemma regions_annular_2000:
  "get_regions_body (AnnularDetector_init 0 2000) (4, 1) (1000, 1000) c = Inr [[0, 1, 3], [2]]"
proof (rule regions_body_eval)
  show "get_bins (AnnularDetector_init 0 2000) c = Inr (1, 1, 0, 2000)" by (simp add: bins_annular)
  show "polar_regions (4, 1) (fst (1000, 1000) / 1000, snd (1000, 1000) / 1000) (0 / 1000) (2000 / 1000) 1 1
        = Inr [[0], [0], [1], [0]]" using labels_annular_2000 by simp
  show "\<not> list_all (\<lambda>l. l = - 1) (concat [[0], [0], [1], [0::int]])" by simp
  show "label_to_index [[0], [0], [1], [0]] = Inr [[0, 1, 3], [2]]" by (rule groups_0010)
qed

lemma cache_annular_init: "cache (AnnularDetector_init i o') = None"
  by (simp add: AnnularDetector_init_def PolarDetector_init_def)

lemma integrate_array_eval:
  assumes "get_regions d (shape2 arr) ang c = (Inr (indices # rest), d')"
      and "take_indices_batch (flat arr) indices = Inr picked"
  shows "integrate_array d arr ang c True
           = (Inr (map2 np_divide (map sum_list picked) (map sum_list (flat arr))), d')"
    and "integrate_array d arr ang c False = (Inr (map Some (map sum_list picked)), d')"
  using assms by (simp_all add: integrate_array_def)

lemma annular_2000_detect:
  "fst (AnnularDetector_detect fft2_dft abs2_sq (AnnularDetector_init 0 2000) w_example True)
   = Inr [Some (3 / 4)]"
proof -
  let ?I = "\<lparr> shape2 = (4, 1), flat = [[1, 1, 1, 1::real]] \<rparr>"
  have gr: "get_regions (AnnularDetector_init 0 2000) (shape2 ?I) (1000, 1000) (Some 5000)
         = (Inr [[0, 1, 3], [2]],
            (AnnularDetector_init 0 2000)\<lparr>cache := Some (((4, 1), (1000, 1000), Some 5000), [[0, 1, 3], [2]])\<rparr>)"
    using get_regions_miss[OF cache_annular_init regions_annular_2000[of "Some 5000"]] by simp
  have pick: "take_indices_batch (flat ?I) [0, 1, 3] = Inr [[1, 1, 1]]"
    by (simp add: take_indices_def)
  have "AnnularDetector_detect fft2_dft abs2_sq (AnnularDetector_init 0 2000) w_example True
        = integrate_array (AnnularDetector_init 0 2000) ?I (1000, 1000) (Some 5000) True"
    unfolding AnnularDetector_detect_def Let_def intensity_example min_cutoff_example
    by (simp add: w_example_def)
  then show ?thesis
    unfolding integrate_array_eval(1)[OF gr pick] by (simp add: np_divide_def)
qed

lemma w_example_fields:
  "gpts w_example = (4, 1)" "angular_sampling w_example = (1000, 1000)"
  "gpts w_example2 = (4, 1)" "angular_sampling w_example2 = (1000, 1000)"
  "min_cutoff w_example2 = 5000"
  by (simp_all add: w_example_def w_example2_def min_cutoff_def)

lemma intensity_example2:
  "abs2_sq (fft2_dft (array w_example2)) = \<lparr> shape2 = (4, 1), flat = [[1, 1, 1, 1], [4, 4, 4, 4]] \<rparr>"
  by (simp add: w_example2_def w_example_def abs2_sq_def fft2_dft_def dft2_at_def upt_rec)

lemma annular_detect_eval:
  assumes "abs2 (fft2 (array w)) = arr"
      and "get_regions d (shape2 arr) (angular_sampling w) (Some (min_cutoff w)) = (Inr (indices # rest), d')"
      and "take_indices_batch (flat arr) indices = Inr picked"
  shows "AnnularDetector_detect fft2 abs2 d w True
           = (Inr (map2 np_divide (map sum_list picked) (map sum_list (flat arr))), d')"
    and "AnnularDetector_detect fft2 abs2 d w False = (Inr (map Some (map sum_list picked)), d')"
  using assms integrate_array_eval[OF assms(2,3)]
  by (simp_all add: AnnularDetector_detect_def Let_def)

lemma segmented_detect_eval:
  assumes "abs2 (fft2 (array w)) = arr"
      and "get_regions d (gpts w) (angular_sampling w) (Some (min_cutoff w)) = (Inr indices, d')"
      and "indices \<noteq> []"
      and "take_indices_batch (flat arr) (concat indices) = Inr gathered"
      and "nbins_radial_of d' = Inr nr" and "nbins_angular_of d' = Inr na"
  shows "SegmentedDetector_detect fft2 abs2 d w
         = (case reshape3 (sum_run_length_encoded gathered (0 # cumsum (map length indices))) nr na of
              Inl e \<Rightarrow> (Inl e, d')
            | Inr r3 \<Rightarrow> (divide_total r3 (map sum_list (flat arr)), d'))"
  using assms by (simp add: SegmentedDetector_detect_def Let_def)

text \<open>Regions of the detectors used below, on the 4 by 1 grid.\<close>

lemma regions_annular_3000:
  "get_regions_body (AnnularDetector_init 0 3000) (4, 1) (1000, 1000) c = Inr [[0, 1, 2, 3]]"
proof (rule regions_body_eval)
  show "get_bins (AnnularDetector_init 0 3000) c = Inr (1, 1, 0, 3000)" by (simp add: bins_annular)
  show "polar_regions (4, 1) (fst (1000, 1000) / 1000, snd (1000, 1000) / 1000) (0 / 1000) (3000 / 1000) 1 1
        = Inr [[0], [0], [0], [0]]" using labels_annular_3000 by simp
  show "\<not> list_all (\<lambda>l. l = - 1) (concat [[0], [0], [0], [0::int]])" by simp
  show "label_to_index [[0], [0], [0], [0]] = Inr [[0, 1, 2, 3]]" by (rule groups_0000)
qed

lemma regions_annular_1500:
  "get_regions_body (AnnularDetector_init 0 1500) (4, 1) (1000, 1000) c = Inr [[0, 1, 3]]"
proof (rule regions_body_eval)
  show "get_bins (AnnularDetector_init 0 1500) c = Inr (1, 1, 0, 1500)" by (simp add: bins_annular)
  show "polar_regions (4, 1) (fst (1000, 1000) / 1000, snd (1000, 1000) / 1000) (0 / 1000) (1500 / 1000) 1 1
        = Inr [[0], [0], [-1], [0]]" using labels_annular_1500 by simp
  show "\<not> list_all (\<lambda>l. l = - 1) (concat [[0], [0], [-1], [0::int]])" by simp
  show "label_to_index [[0], [0], [-1], [0]] = Inr [[0, 1, 3]]" by (rule groups_00m0)
qed

lemma regions_annular_mutated:
  "get_regions_body annular_mutated (4, 1) (1000, 1000) c = Inr [[0, 1, 3], [2]]"
proof (rule regions_body_eval)
  show "get_bins annular_mutated c = Inr (2, 1, 0, 3000)"
    by (simp add: get_bins_def annular_mutated_def py_div_def)
  show "polar_regions (4, 1) (fst (1000, 1000) / 1000, snd (1000, 1000) / 1000) (0 / 1000) (3000 / 1000) 2 1
        = Inr [[0], [0], [1], [0]]" using labels_stale_3000 by simp
  show "\<not> list_all (\<lambda>l. l = - 1) (concat [[0], [0], [1], [0::int]])" by simp
  show "label_to_index [[0], [0], [1], [0]] = Inr [[0, 1, 3], [2]]" by (rule groups_0010)
qed

lemma pick_013: "take_indices_batch [[1, 1, 1, 1::real]] [0, 1, 3] = Inr [[1, 1, 1]]"
  by (simp add: take_indices_def)

lemma pick_0123: "take_indices_batch [[1, 1, 1, 1::real]] [0, 1, 2, 3] = Inr [[1, 1, 1, 1]]"
  by (simp add: take_indices_def)

lemma annular_1500_detect:
  "AnnularDetector_detect fft2_dft abs2_sq (AnnularDetector_init 0 1500) w_example True
   = (Inr [Some (3 / 4)],
      (AnnularDetector_init 0 1500)\<lparr>cache := Some (((4, 1), (1000, 1000), Some 5000), [[0, 1, 3]])\<rparr>)"
proof -
  have gr: "get_regions (AnnularDetector_init 0 1500) (shape2 \<lparr> shape2 = (4, 1), flat = [[1, 1, 1, 1::real]] \<rparr>)
              (angular_sampling w_example) (Some (min_cutoff w_example))
         = (Inr [[0, 1, 3]],
            (AnnularDetector_init 0 1500)\<lparr>cache := Some (((4, 1), (1000, 1000), Some 5000), [[0, 1, 3]])\<rparr>)"
    using get_regions_miss[OF cache_annular_init regions_annular_1500[of "Some 5000"]]
    by (simp add: w_example_fields min_cutoff_example)
  have pick: "take_indices_batch (flat \<lparr> shape2 = (4, 1), flat = [[1, 1, 1, 1::real]] \<rparr>) [0, 1, 3] = Inr [[1, 1, 1]]"
    using pick_013 by simp
  show ?thesis
    unfolding annular_detect_eval(1)[where ?fft2.0 = fft2_dft and ?abs2.0 = abs2_sq and w = w_example, OF intensity_example gr pick] by (simp add: np_divide_def)
qed

lemma annular_3000_detect:
  "fst (AnnularDetector_detect fft2_dft abs2_sq (AnnularDetector_init 0 3000) w_example True)
   = Inr [Some 1]"
proof -
  have gr: "get_regions (AnnularDetector_init 0 3000) (shape2 \<lparr> shape2 = (4, 1), flat = [[1, 1, 1, 1::real]] \<rparr>)
              (angular_sampling w_example) (Some (min_cutoff w_example))
         = (Inr [[0, 1, 2, 3]],
            (AnnularDetector_init 0 3000)\<lparr>cache := Some (((4, 1), (1000, 1000), Some 5000), [[0, 1, 2, 3]])\<rparr>)"
    using get_regions_miss[OF cache_annular_init regions_annular_3000[of "Some 5000"]]
    by (simp add: w_example_fields min_cutoff_example)
  have pick: "take_indices_batch (flat \<lparr> shape2 = (4, 1), flat = [[1, 1, 1, 1::real]] \<rparr>) [0, 1, 2, 3] = Inr [[1, 1, 1, 1]]"
    using pick_0123 by simp
  show ?thesis
    unfolding annular_detect_eval(1)[where ?fft2.0 = fft2_dft and ?abs2.0 = abs2_sq and w = w_example, OF intensity_example gr pick] by (simp add: np_divide_def)
qed

lemma annular_mutated_detect:
  "fst (AnnularDetector_detect fft2_dft abs2_sq annular_mutated w_example True) = Inr [Some (3 / 4)]"
proof -
  have c: "cache annular_mutated = None" by (simp add: annular_mutated_def)
  have gr: "get_regions annular_mutated (shape2 \<lparr> shape2 = (4, 1), flat = [[1, 1, 1, 1::real]] \<rparr>)
              (angular_sampling w_example) (Some (min_cutoff w_example))
         = (Inr [[0, 1, 3], [2]],
            annular_mutated\<lparr>cache := Some (((4, 1), (1000, 1000), Some 5000), [[0, 1, 3], [2]])\<rparr>)"
    using get_regions_miss[OF c regions_annular_mutated[of "Some 5000"]]
    by (simp add: w_example_fields min_cutoff_example)
  have pick: "take_indices_batch (flat \<lparr> shape2 = (4, 1), flat = [[1, 1, 1, 1::real]] \<rparr>) [0, 1, 3] = Inr [[1, 1, 1]]"
    using pick_013 by simp
  show ?thesis
    unfolding annular_detect_eval(1)[where ?fft2.0 = fft2_dft and ?abs2.0 = abs2_sq and w = w_example, OF intensity_example gr pick] by (simp add: np_divide_def)
qed

lemma set_outer_after_detect:
  "AnnularDetector_set_outer cache_clear 3000
     (snd (AnnularDetector_detect fft2_dft abs2_sq (AnnularDetector_init 0 1500) w_example True))
   = annular_mutated"
  unfolding annular_1500_detect
  by (simp add: AnnularDetector_set_outer_def cache_clear_def AnnularDetector_init_def
        PolarDetector_init_def annular_mutated_def)

lemma segmented_inits:
  "SegmentedDetector_init 0 8000 2 1 = Inr segmented_wide"
  "SegmentedDetector_init 0 2000 2 1 = Inr segmented_edge"
  "SegmentedDetector_init 0 3000 2 1 = Inr segmented_fit"
  by (simp_all add: SegmentedDetector_init_def py_div_def segmented_wide_def segmented_edge_def
        segmented_fit_def)

lemma segmented_bins:
  "get_bins segmented_wide c = Inr (2, 1, 0, 8000)"
  "get_bins segmented_edge c = Inr (2, 1, 0, 2000)"
  "get_bins segmented_fit c = Inr (2, 1, 0, 3000)"
  by (simp_all add: get_bins_def py_div_def segmented_wide_def segmented_edge_def
        segmented_fit_def PolarDetector_init_def)

lemma segmented_nbins:
  "nbins_radial_of (segmented_wide\<lparr>cache := x\<rparr>) = Inr 2"
  "nbins_angular_of (segmented_wide\<lparr>cache := x\<rparr>) = Inr 1"
  "nbins_radial_of (segmented_edge\<lparr>cache := x\<rparr>) = Inr 2"
  "nbins_angular_of (segmented_edge\<lparr>cache := x\<rparr>) = Inr 1"
  "nbins_radial_of (segmented_fit\<lparr>cache := x\<rparr>) = Inr 2"
  "nbins_angular_of (segmented_fit\<lparr>cache := x\<rparr>) = Inr 1"
  by (simp_all add: nbins_radial_of_def nbins_angular_of_def py_div_def trunc_def
        segmented_wide_def segmented_edge_def segmented_fit_def PolarDetector_init_def)

lemma segmented_cache:
  "cache segmented_wide = None" "cache segmented_edge = None" "cache segmented_fit = None"
  by (simp_all add: segmented_wide_def segmented_edge_def segmented_fit_def PolarDetector_init_def)

lemma regions_segmented_wide:
  "get_regions_body segmented_wide (4, 1) (1000, 1000) c = Inr [[0, 1, 2, 3]]"
proof (rule regions_body_eval)
  show "get_bins segmented_wide c = Inr (2, 1, 0, 8000)" by (rule segmented_bins)
  show "polar_regions (4, 1) (fst (1000, 1000) / 1000, snd (1000, 1000) / 1000) (0 / 1000) (8000 / 1000) 2 1
        = Inr [[0], [0], [0], [0]]" using labels_top_empty by simp
  show "\<not> list_all (\<lambda>l. l = - 1) (concat [[0], [0], [0], [0::int]])" by simp
  show "label_to_index [[0], [0], [0], [0]] = Inr [[0, 1, 2, 3]]" by (rule groups_0000)
qed

lemma regions_segmented_edge:
  "get_regions_body segmented_edge (4, 1) (1000, 1000) c = Inr [[0], [1, 3], [2]]"
proof (rule regions_body_eval)
  show "get_bins segmented_edge c = Inr (2, 1, 0, 2000)" by (rule segmented_bins)
  show "polar_regions (4, 1) (fst (1000, 1000) / 1000, snd (1000, 1000) / 1000) (0 / 1000) (2000 / 1000) 2 1
        = Inr [[0], [1], [2], [1]]" using labels_4x1_two_rings by simp
  show "\<not> list_all (\<lambda>l. l = - 1) (concat [[0], [1], [2], [1::int]])" by simp
  show "label_to_index [[0], [1], [2], [1]] = Inr [[0], [1, 3], [2]]" by (rule groups_4x1_two_rings)
qed

lemma regions_segmented_fit:
  "get_regions_body segmented_fit (4, 1) (1000, 1000) c = Inr [[0, 1, 3], [2]]"
proof (rule regions_body_eval)
  show "get_bins segmented_fit c = Inr (2, 1, 0, 3000)" by (rule segmented_bins)
  show "polar_regions (4, 1) (fst (1000, 1000) / 1000, snd (1000, 1000) / 1000) (0 / 1000) (3000 / 1000) 2 1
        = Inr [[0], [0], [1], [0]]" using labels_stale_3000 by simp
  show "\<not> list_all (\<lambda>l. l = - 1) (concat [[0], [0], [1], [0::int]])" by simp
  show "label_to_index [[0], [0], [1], [0]] = Inr [[0, 1, 3], [2]]" by (rule groups_0010)
qed

lemma segmented_wide_detect:
  "fst (SegmentedDetector_detect fft2_dft abs2_sq segmented_wide w_example) = Inl ValueError"
proof -
  have gr: "get_regions segmented_wide (gpts w_example) (angular_sampling w_example) (Some (min_cutoff w_example))
         = (Inr [[0, 1, 2, 3]],
            segmented_wide\<lparr>cache := Some (((4, 1), (1000, 1000), Some 5000), [[0, 1, 2, 3]])\<rparr>)"
    using get_regions_miss[OF segmented_cache(1) regions_segmented_wide[of "Some 5000"]]
    by (simp add: w_example_fields min_cutoff_example)
  have pick: "take_indices_batch (flat \<lparr> shape2 = (4, 1), flat = [[1, 1, 1, 1::real]] \<rparr>) (concat [[0, 1, 2, 3]])
              = Inr [[1, 1, 1, 1]]"
    by (simp add: take_indices_def)
  show ?thesis
    unfolding segmented_detect_eval[where ?fft2.0 = fft2_dft and ?abs2.0 = abs2_sq and w = w_example,
        OF intensity_example gr _ pick segmented_nbins(1) segmented_nbins(2), simplified]
    by (simp add: sum_run_length_encoded_def cumsum_def slice_def reshape3_def)
qed

lemma segmented_edge_detect:
  "fst (SegmentedDetector_detect fft2_dft abs2_sq segmented_edge w_example) = Inl ValueError"
proof -
  have gr: "get_regions segmented_edge (gpts w_example) (angular_sampling w_example) (Some (min_cutoff w_example))
         = (Inr [[0], [1, 3], [2]],
            segmented_edge\<lparr>cache := Some (((4, 1), (1000, 1000), Some 5000), [[0], [1, 3], [2]])\<rparr>)"
    using get_regions_miss[OF segmented_cache(2) regions_segmented_edge[of "Some 5000"]]
    by (simp add: w_example_fields min_cutoff_example)
  have pick: "take_indices_batch (flat \<lparr> shape2 = (4, 1), flat = [[1, 1, 1, 1::real]] \<rparr>) (concat [[0], [1, 3], [2]])
              = Inr [[1, 1, 1, 1]]"
    by (simp add: take_indices_def)
  show ?thesis
    unfolding segmented_detect_eval[where ?fft2.0 = fft2_dft and ?abs2.0 = abs2_sq and w = w_example,
        OF intensity_example gr _ pick segmented_nbins(3) segmented_nbins(4), simplified]
    by (simp add: sum_run_length_encoded_def cumsum_def slice_def reshape3_def)
qed

lemma segmented_fit_detect:
  "fst (SegmentedDetector_detect fft2_dft abs2_sq segmented_fit w_example)
   = Inr [[[Some (3 / 4)], [Some (1 / 4)]]]"
proof -
  have gr: "get_regions segmented_fit (gpts w_example) (angular_sampling w_example) (Some (min_cutoff w_example))
         = (Inr [[0, 1, 3], [2]],
            segmented_fit\<lparr>cache := Some (((4, 1), (1000, 1000), Some 5000), [[0, 1, 3], [2]])\<rparr>)"
    using get_regions_miss[OF segmented_cache(3) regions_segmented_fit[of "Some 5000"]]
    by (simp add: w_example_fields min_cutoff_example)
  have pick: "take_indices_batch (flat \<lparr> shape2 = (4, 1), flat = [[1, 1, 1, 1::real]] \<rparr>) (concat [[0, 1, 3], [2]])
              = Inr [[1, 1, 1, 1]]"
    by (simp add: take_indices_def)
  show ?thesis
    unfolding segmented_detect_eval[where ?fft2.0 = fft2_dft and ?abs2.0 = abs2_sq and w = w_example,
        OF intensity_example gr _ pick segmented_nbins(5) segmented_nbins(6), simplified]
    by (simp add: sum_run_length_encoded_def cumsum_def slice_def reshape3_def divide_total_def numeral_2_eq_2
          np_divide_def)
qed

lemma segmented_wide_detect2:
  "fst (SegmentedDetector_detect fft2_dft abs2_sq segmented_wide w_example2)
   = Inr [[[Some 1], [Some 4]], [[Some (1 / 4)], [Some 1]]]"
proof -
  have gr: "get_regions segmented_wide (gpts w_example2) (angular_sampling w_example2) (Some (min_cutoff w_example2))
         = (Inr [[0, 1, 2, 3]],
            segmented_wide\<lparr>cache := Some (((4, 1), (1000, 1000), Some 5000), [[0, 1, 2, 3]])\<rparr>)"
    using get_regions_miss[OF segmented_cache(1) regions_segmented_wide[of "Some 5000"]]
    by (simp add: w_example_fields)
  have pick: "take_indices_batch (flat \<lparr> shape2 = (4, 1), flat = [[1, 1, 1, 1::real], [4, 4, 4, 4]] \<rparr>)
                (concat [[0, 1, 2, 3]])
              = Inr [[1, 1, 1, 1], [4, 4, 4, 4]]"
    by (simp add: take_indices_def)
  show ?thesis
    unfolding segmented_detect_eval[where ?fft2.0 = fft2_dft and ?abs2.0 = abs2_sq and w = w_example2,
        OF intensity_example2 gr _ pick segmented_nbins(1) segmented_nbins(2), simplified]
    by (simp add: sum_run_length_encoded_def cumsum_def slice_def reshape3_def divide_total_def numeral_2_eq_2
          np_divide_def)
qed

subsection \<open>The regions of a detector partition the valid cells\<close>

lemma get_bins_positive:
  assumes "0 < radial_steps d" and "0 < azimuthal_steps d"
      and "get_bins d cutoff = Inr (nr, na, i, o')" and "i < o'"
  shows "0 < nr" and "0 < na"
proof -
  have nr: "nr = \<lceil>(o' - i) / radial_steps d\<rceil>" and na: "na = \<lceil>2 * pi / azimuthal_steps d\<rceil>"
    using assms(1-3)
    by (auto simp: get_bins_def py_div_def Let_def split: option.splits sum.splits if_splits)
  have "0 < (o' - i) / radial_steps d" using assms(1,4) by simp
  then show "0 < nr" unfolding nr by linarith
  have "0 < 2 * pi / azimuthal_steps d" using assms(2) by simp
  then show "0 < na" unfolding na by linarith
qed

lemma label_to_index_returns:
  assumes "concat L \<noteq> []"
  shows "\<exists>groups. label_to_index L = Inr groups"
proof -
  obtain x xs where c: "concat L = x # xs" using assms by (cases "concat L") auto
  show ?thesis unfolding label_to_index_eq c by simp
qed

lemma valid_cell_labelled:
  assumes "inner' < outer'" and "0 \<le> nr" and "0 < na"
      and "polar_regions g ang inner' outer' nr na = Inr labels"
      and "\<exists>a \<in> set (alpha_grid g ang). inner' \<le> a \<and> a \<le> outer'"
  shows "\<not> list_all (\<lambda>l. l = - 1) (concat labels)"
proof -
  have flat: "concat labels = map (\<lambda>(ax, ay). cell_label inner' outer' nr na ax ay) (frequency_grid g ang)"
    by (rule polar_regions_flat[OF assms(4)])
  from assms(5) obtain ax ay where p: "(ax, ay) \<in> set (frequency_grid g ang)"
      and v: "inner' \<le> alpha_of ax ay" "alpha_of ax ay \<le> outer'"
    by (auto simp: alpha_grid_def)
  have "0 \<le> cell_label inner' outer' nr na ax ay"
    using cell_label_nonneg_iff[OF assms(1-3), of ax ay] v by (simp add: valid_def)
  moreover have "cell_label inner' outer' nr na ax ay
                 \<in> set (map (\<lambda>(ax, ay). cell_label inner' outer' nr na ax ay) (frequency_grid g ang))"
    using p by force
  ultimately have "\<exists>l \<in> set (map (\<lambda>(ax, ay). cell_label inner' outer' nr na ax ay) (frequency_grid g ang)). l \<noteq> - 1"
    by force
  then show ?thesis unfolding flat list_all_iff by blast
qed

text \<open>
  C1. For every detector with positive radial and azimuthal steps whose bins
  \<^verbatim>\<open>_get_bins\<close> computes with \<open>inner < outer\<close>, and every grid with a computable
  sampling that has a valid cell, \<^verbatim>\<open>_get_regions\<close> computes index groups (and
  returns and stores them when no entry is stored for the key) that partition the valid
  cells: their union is exactly the set of flat indices of the cells with
  \<open>inner \<le> alpha \<le> outer\<close> (limits and sampling converted from mrad to rad), and two
  different groups share no index.
\<close>

theorem regions_partition:
  assumes "0 < radial_steps d" and "0 < azimuthal_steps d"
      and "get_bins d cutoff = Inr (nr, na, i, o')" and "i < o'"
      and "fst g \<noteq> 0" and "snd g \<noteq> 0" and "fst ang \<noteq> 0" and "snd ang \<noteq> 0"
      and "\<exists>a \<in> set (alpha_grid g (fst ang / 1000, snd ang / 1000)). i / 1000 \<le> a \<and> a \<le> o' / 1000"
  shows "\<exists>groups.
           get_regions_body d g ang cutoff = Inr groups
         \<and> ((\<forall>v. cache d \<noteq> Some ((g, ang, cutoff), v)) \<longrightarrow>
              get_regions d g ang cutoff = (Inr groups, d\<lparr>cache := Some ((g, ang, cutoff), groups)\<rparr>))
         \<and> (\<Union>r \<in> set groups. set r)
             = {k. k < fst g * snd g
                   \<and> i / 1000 \<le> alpha_grid g (fst ang / 1000, snd ang / 1000) ! k
                   \<and> alpha_grid g (fst ang / 1000, snd ang / 1000) ! k \<le> o' / 1000}
         \<and> (\<forall>a < length groups. \<forall>b < length groups. a \<noteq> b \<longrightarrow>
               set (groups ! a) \<inter> set (groups ! b) = {})"
proof -
  let ?ang = "(fst ang / 1000, snd ang / 1000)"
  have pos: "0 \<le> nr" "0 < na"
    using get_bins_positive[OF assms(1-4)] by simp_all
  have lt: "i / 1000 < o' / 1000" using assms(4) by simp
  obtain labels where l: "polar_regions g ?ang (i / 1000) (o' / 1000) nr na = Inr labels"
    using polar_regions_returns[of g ?ang "i / 1000" "o' / 1000" nr na] assms(5-8) by auto
  have some: "\<not> list_all (\<lambda>l. l = - 1) (concat labels)"
    by (rule valid_cell_labelled[OF lt pos l assms(9)])
  have "concat labels \<noteq> []"
  proof
    assume e: "concat labels = []"
    show False using some unfolding e by simp
  qed
  then obtain groups where gr: "label_to_index labels = Inr groups"
    using label_to_index_returns by blast
  have body: "get_regions_body d g ang cutoff = Inr groups"
    using some by (simp add: get_regions_body_def assms(3) l gr)
  have stored: "get_regions d g ang cutoff = (Inr groups, d\<lparr>cache := Some ((g, ang, cutoff), groups)\<rparr>)"
    if "\<forall>v. cache d \<noteq> Some ((g, ang, cutoff), v)"
    unfolding get_regions_no_entry[OF that] body by simp
  note part = labels_groups_partition[OF lt pos l gr]
  show ?thesis
  proof (rule exI[of _ groups], intro conjI)
    show "get_regions_body d g ang cutoff = Inr groups" by (rule body)
    show "(\<forall>v. cache d \<noteq> Some ((g, ang, cutoff), v)) \<longrightarrow>
              get_regions d g ang cutoff = (Inr groups, d\<lparr>cache := Some ((g, ang, cutoff), groups)\<rparr>)"
      using stored by blast
    show "(\<Union>r \<in> set groups. set r)
             = {k. k < fst g * snd g
                   \<and> i / 1000 \<le> alpha_grid g (fst ang / 1000, snd ang / 1000) ! k
                   \<and> alpha_grid g (fst ang / 1000, snd ang / 1000) ! k \<le> o' / 1000}"
      using part by (rule conjunct1)
    show "\<forall>a < length groups. \<forall>b < length groups. a \<noteq> b \<longrightarrow>
               set (groups ! a) \<inter> set (groups ! b) = {}"
      using part by (rule conjunct2)
  qed
qed


lemma bins_segmented_halves: "get_bins segmented_halves c = Inr (2, 2, 0, 2000)"
  by (simp add: get_bins_def segmented_halves_def PolarDetector_init_def py_div_def)

lemma regions_segmented_halves:
  "get_regions_body segmented_halves (4, 1) (1000, 1000) c = Inr [[0], [], [1], [3], [], [2]]"
proof (rule regions_body_eval)
  show "get_bins segmented_halves c = Inr (2, 2, 0, 2000)" by (rule bins_segmented_halves)
  show "polar_regions (4, 1) (fst (1000, 1000) / 1000, snd (1000, 1000) / 1000) (0 / 1000) (2000 / 1000) 2 2
        = Inr [[0], [2], [5], [3]]" using labels_2x2 by simp
  show "\<not> list_all (\<lambda>l. l = - 1) (concat [[0], [2], [5], [3::int]])" by simp
  show "label_to_index [[0], [2], [5], [3]] = Inr [[0], [], [1], [3], [], [2]]" by (rule groups_0253)
qed

text \<open>
  \<^verbatim>\<open>SegmentedDetector(0, 2000, 2, 2)\<close> on the 4 by 1 grid: all four cells are valid
  (\<open>alpha\<close> is 0, 1, 2, 1 rad), the labels are 0, 2, 5, 3 and the six groups, two of them
  empty, hold each cell once.
\<close>

theorem regions_partition_witness:
  "0 < radial_steps segmented_halves \<and> 0 < azimuthal_steps segmented_halves
   \<and> get_bins segmented_halves None = Inr (2, 2, 0, 2000) \<and> (0::real) < 2000
   \<and> alpha_grid (4, 1) (1, 1) = [0, 1, 2, 1]
   \<and> cache segmented_halves = None
   \<and> get_regions_body segmented_halves (4, 1) (1000, 1000) None = Inr [[0], [], [1], [3], [], [2]]
   \<and> get_regions segmented_halves (4, 1) (1000, 1000) None
       = (Inr [[0], [], [1], [3], [], [2]],
          segmented_halves\<lparr>cache := Some (((4, 1), (1000, 1000), None), [[0], [], [1], [3], [], [2]])\<rparr>)
   \<and> (\<Union>r \<in> set [[0], [], [1], [3], [], [2::nat]]. set r)
       = {k. k < 4 \<and> 0 \<le> alpha_grid (4, 1) (1, 1) ! k \<and> alpha_grid (4, 1) (1, 1) ! k \<le> 2}
   \<and> set ([[0], [], [1], [3], [], [2::nat]] ! 0) \<inter> set ([[0], [], [1], [3], [], [2]] ! 2) = {}
   \<and> set ([[0], [], [1], [3], [], [2::nat]] ! 2) \<inter> set ([[0], [], [1], [3], [], [2]] ! 3) = {}
   \<and> set ([[0], [], [1], [3], [], [2::nat]] ! 3) \<inter> set ([[0], [], [1], [3], [], [2]] ! 5) = {}"
proof -
  have h1: "0 < radial_steps segmented_halves" "0 < azimuthal_steps segmented_halves"
    by (simp_all add: segmented_halves_def PolarDetector_init_def)
  have h2: "get_bins segmented_halves None = Inr (2, 2, 0, 2000)" by (rule bins_segmented_halves)
  have h3: "(0::real) < 2000" by simp
  have h4: "fst (4::nat, 1::nat) \<noteq> 0" "snd (4::nat, 1::nat) \<noteq> 0"
    "fst (1000::real, 1000::real) \<noteq> 0" "snd (1000::real, 1000::real) \<noteq> 0" by simp_all
  have h5: "\<exists>a \<in> set (alpha_grid (4, 1) (fst (1000::real, 1000::real) / 1000, snd (1000::real, 1000::real) / 1000)).
              0 / 1000 \<le> a \<and> a \<le> 2000 / 1000"
    using alpha_grid_4x1 by simp
  have c: "cache segmented_halves = None"
    by (simp add: segmented_halves_def PolarDetector_init_def)
  have e: "get_regions_body segmented_halves (4, 1) (1000, 1000) None = Inr [[0], [], [1], [3], [], [2]]"
    by (rule regions_segmented_halves)
  note r = regions_partition[OF h1 h2 h3 h4 h5]
  have s': "get_regions segmented_halves (4, 1) (1000, 1000) None
       = (Inr [[0], [], [1], [3], [], [2]],
          segmented_halves\<lparr>cache := Some (((4, 1), (1000, 1000), None), [[0], [], [1], [3], [], [2]])\<rparr>)"
    using r unfolding e by (simp add: c)
  have u': "(\<Union>r \<in> set [[0], [], [1], [3], [], [2::nat]]. set r)
       = {k. k < 4 \<and> 0 \<le> alpha_grid (4, 1) (1, 1) ! k \<and> alpha_grid (4, 1) (1, 1) ! k \<le> 2}"
    using r unfolding e by simp
  have d: "set ([[0], [], [1], [3], [], [2::nat]] ! 0) \<inter> set ([[0], [], [1], [3], [], [2]] ! 2) = {}"
    "set ([[0], [], [1], [3], [], [2::nat]] ! 2) \<inter> set ([[0], [], [1], [3], [], [2]] ! 3) = {}"
    "set ([[0], [], [1], [3], [], [2::nat]] ! 3) \<inter> set ([[0], [], [1], [3], [], [2]] ! 5) = {}"
    by simp_all
  show ?thesis by (intro conjI h1 h2 h3 alpha_grid_4x1 c e s' u' d)
qed

subsection \<open>A degenerate annulus\<close>

lemma regions_annular_degenerate:
  "get_regions_body (AnnularDetector_init i i) g ang c = Inl ZeroDivisionError"
  by (simp add: get_regions_body_def bins_annular_degenerate)

text \<open>
  C4. \<^verbatim>\<open>AnnularDetector(5, 5)\<close> has \<open>inner = outer\<close> and no cell of the 4 by 1 grid is
  valid, but computing the regions does not raise the zero-sized-region error: the
  radial step of the constructor is \<open>outer - inner = 0\<close>, \<^verbatim>\<open>_get_bins\<close> divides by it
  and Python's ZeroDivisionError leaves \<^verbatim>\<open>_get_regions\<close> before the guard is
  reached. \<^verbatim>\<open>detect\<close> raises the same error.
\<close>

theorem degenerate_annulus_division_error:
  "inner (AnnularDetector_init 5 5) = outer (AnnularDetector_init 5 5)
   \<and> list_all (\<lambda>a. \<not> (5 / 1000 \<le> a \<and> a \<le> 5 / 1000)) (alpha_grid (4, 1) (1000 / 1000, 1000 / 1000))
   \<and> get_regions (AnnularDetector_init 5 5) (4, 1) (1000, 1000) (Some 5000)
       = (Inl ZeroDivisionError, AnnularDetector_init 5 5)
   \<and> AnnularDetector_detect fft2_dft abs2_sq (AnnularDetector_init 5 5) w_example True
       = (Inl ZeroDivisionError, AnnularDetector_init 5 5)"
proof -
  have a: "inner (AnnularDetector_init 5 5) = outer (AnnularDetector_init 5 5)"
    by (simp add: AnnularDetector_init_def PolarDetector_init_def)
  have b: "list_all (\<lambda>a. \<not> (5 / 1000 \<le> a \<and> a \<le> 5 / 1000)) (alpha_grid (4, 1) (1000 / 1000, 1000 / 1000))"
    using alpha_grid_4x1 by simp
  have c: "get_regions (AnnularDetector_init 5 5) g ang c
       = (Inl ZeroDivisionError, AnnularDetector_init 5 5)" for g ang c
    by (rule get_regions_error[OF cache_annular_init regions_annular_degenerate])
  have d: "AnnularDetector_detect fft2_dft abs2_sq (AnnularDetector_init 5 5) w_example True
       = (Inl ZeroDivisionError, AnnularDetector_init 5 5)"
    by (simp add: AnnularDetector_detect_def integrate_array_def c Let_def)
  show ?thesis using a b c d by blast
qed

text \<open>
  With \<open>inner = outer = 0\<close> and a radial step of 1 the division of \<^verbatim>\<open>_get_bins\<close> is
  defined and the cell at the origin is valid. Its radial bin is the cast of NaN. With
  one azimuthal bin its label is the smallest 64-bit integer, the guard does not fire
  and the list of regions is empty; with two azimuthal bins the product wraps around to
  0 and the origin is the only cell of the only region.
\<close>

lemma degenerate_annulus_at_origin:
  "get_regions_body (PolarDetector_init (Some 0) (Some 0) 1 None) (4, 1) (1000, 1000) c = Inr []"
proof (rule regions_body_eval)
  show "get_bins (PolarDetector_init (Some 0) (Some 0) 1 None) c = Inr (0, 1, 0, 0)"
    by (simp add: get_bins_def PolarDetector_init_def py_div_def)
  show "polar_regions (4, 1) (fst (1000, 1000) / 1000, snd (1000, 1000) / 1000) (0 / 1000) (0 / 1000) 0 1
        = Inr [[int_of_nan], [- 1], [- 1], [- 1]]"
    by (simp add: polar_eval wrap64_def int_of_nan_def)
  show "\<not> list_all (\<lambda>l. l = - 1) (concat [[int_of_nan], [- 1], [- 1], [- 1]])"
    by (simp add: int_of_nan_def)
  show "label_to_index [[int_of_nan], [- 1], [- 1], [- 1]] = Inr []"
    by (simp add: label_to_index_def arange_def int_of_nan_def)
qed

lemma degenerate_annulus_two_sectors:
  "get_regions_body (PolarDetector_init (Some 0) (Some 0) 1 (Some pi)) (4, 1) (1000, 1000) c = Inr [[0]]"
proof (rule regions_body_eval)
  show "get_bins (PolarDetector_init (Some 0) (Some 0) 1 (Some pi)) c = Inr (0, 2, 0, 0)"
    by (simp add: get_bins_def PolarDetector_init_def py_div_def)
  show "polar_regions (4, 1) (fst (1000, 1000) / 1000, snd (1000, 1000) / 1000) (0 / 1000) (0 / 1000) 0 2
        = Inr [[0], [- 1], [- 1], [- 1]]"
    by (simp add: polar_eval wrap64_def int_of_nan_def)
  show "\<not> list_all (\<lambda>l. l = - 1) (concat [[0], [- 1], [- 1], [- 1::int]])"
    by simp
  show "label_to_index [[0], [- 1], [- 1], [- 1]] = Inr [[0]]"
    by (simp add: group_eval)
qed

text \<open>An annulus beyond the sampled frequencies: every cell is invalid, the guard fires.\<close>

lemma zero_size_guard_example:
  "get_regions (AnnularDetector_init 3000 4000) (4, 1) (1000, 1000) (Some 5000)
     = (Inl ZeroSizedRegion, AnnularDetector_init 3000 4000)"
  "AnnularDetector_detect fft2_dft abs2_sq (AnnularDetector_init 3000 4000) w_example True
     = (Inl ZeroSizedRegion, AnnularDetector_init 3000 4000)"
  "SegmentedDetector_detect fft2_dft abs2_sq (AnnularDetector_init 3000 4000) w_example
     = (Inl ZeroSizedRegion, AnnularDetector_init 3000 4000)"
proof -
  have h1: "\<forall>v. cache (AnnularDetector_init 3000 4000) \<noteq> Some (((4, 1), (1000, 1000), Some 5000), v)"
    by (simp add: cache_annular_init)
  have h2: "get_bins (AnnularDetector_init 3000 4000) (Some 5000) = Inr (1, 1, 3000, 4000)"
    by (simp add: bins_annular)
  have h3: "fst (4::nat, 1::nat) \<noteq> 0" "snd (4::nat, 1::nat) \<noteq> 0"
    "fst (1000::real, 1000::real) \<noteq> 0" "snd (1000::real, 1000::real) \<noteq> 0" by simp_all
  have h5: "\<forall>a \<in> set (alpha_grid (4, 1) (fst (1000::real, 1000::real) / 1000, snd (1000::real, 1000::real) / 1000)).
        \<not> (3000 / 1000 \<le> a \<and> a \<le> 4000 / 1000)"
    using alpha_grid_4x1 by simp
  have sh: "shape2 (abs2_sq (fft2_dft (array w_example))) = (4, 1)"
    by (simp add: intensity_example)
  note r = zero_size_guard[OF h1 h2 h3 h5]
  show "get_regions (AnnularDetector_init 3000 4000) (4, 1) (1000, 1000) (Some 5000)
     = (Inl ZeroSizedRegion, AnnularDetector_init 3000 4000)" by (rule r(1))
  show "AnnularDetector_detect fft2_dft abs2_sq (AnnularDetector_init 3000 4000) w_example True
     = (Inl ZeroSizedRegion, AnnularDetector_init 3000 4000)"
    by (rule r(3)[where ?fft2.0 = fft2_dft and ?abs2.0 = abs2_sq and w = w_example, OF sh])
       (simp_all add: w_example_fields min_cutoff_example)
  show "SegmentedDetector_detect fft2_dft abs2_sq (AnnularDetector_init 3000 4000) w_example
     = (Inl ZeroSizedRegion, AnnularDetector_init 3000 4000)"
    by (rule r(4)) (simp_all add: w_example_fields min_cutoff_example)
qed

text \<open>
  A stored entry outlives the geometry it was computed for. \<^verbatim>\<open>AnnularDetector(0, 1500)\<close>
  detects once, then \<^verbatim>\<open>inner = 3000\<close> and \<^verbatim>\<open>outer = 4000\<close> on the code as written
  (no observer, the cache is left as it is): no cell of the grid is valid for the new
  limits, the stored regions of the old limits are returned and \<^verbatim>\<open>detect\<close> gives 3/4
  where the guard would raise.
\<close>

lemma stale_regions_served:
  defines "d \<equiv> AnnularDetector_set_outer (\<lambda>d. d) 4000 (AnnularDetector_set_inner (\<lambda>d. d) 3000
             (snd (AnnularDetector_detect fft2_dft abs2_sq (AnnularDetector_init 0 1500) w_example True)))"
  shows "get_bins d (Some 5000) = Inr (1, 1, 3000, 4000)"
    and "list_all (\<lambda>a. \<not> (3000 / 1000 \<le> a \<and> a \<le> 4000 / 1000)) (alpha_grid (4, 1) (1000 / 1000, 1000 / 1000))"
    and "get_regions_body d (4, 1) (1000, 1000) (Some 5000) = Inl ZeroSizedRegion"
    and "get_regions d (4, 1) (1000, 1000) (Some 5000) = (Inr [[0, 1, 3]], d)"
    and "AnnularDetector_detect fft2_dft abs2_sq d w_example True = (Inr [Some (3 / 4)], d)"
proof -
  have dv: "d = \<lparr> inner = Some 3000, outer = Some 4000, radial_steps = 1500,
       azimuthal_steps = 2 * pi, max_detected_angle = Some 4000,
       cache = Some (((4, 1), (1000, 1000), Some 5000), [[0, 1, 3]]) \<rparr>"
    unfolding d_def annular_1500_detect
    by (simp add: AnnularDetector_set_outer_def AnnularDetector_set_inner_def AnnularDetector_init_def
          PolarDetector_init_def)
  show b: "get_bins d (Some 5000) = Inr (1, 1, 3000, 4000)"
    unfolding dv by (simp add: get_bins_def py_div_def)
  show a: "list_all (\<lambda>a. \<not> (3000 / 1000 \<le> a \<and> a \<le> 4000 / 1000)) (alpha_grid (4, 1) (1000 / 1000, 1000 / 1000))"
    using alpha_grid_4x1 by simp
  have a': "\<forall>a \<in> set (alpha_grid (4, 1) (fst (1000::real, 1000::real) / 1000, snd (1000::real, 1000::real) / 1000)).
        \<not> (3000 / 1000 \<le> a \<and> a \<le> 4000 / 1000)"
    using alpha_grid_4x1 by simp
  show "get_regions_body d (4, 1) (1000, 1000) (Some 5000) = Inl ZeroSizedRegion"
    by (rule zero_sized_body[OF b _ _ _ _ a']) simp_all
  have c: "cache d = Some (((4, 1), (1000, 1000), Some 5000), [[0, 1, 3]])"
    unfolding dv by simp
  show gr: "get_regions d (4, 1) (1000, 1000) (Some 5000) = (Inr [[0, 1, 3]], d)"
    by (simp add: get_regions_def c)
  have gr': "get_regions d (shape2 \<lparr> shape2 = (4, 1), flat = [[1, 1, 1, 1::real]] \<rparr>)
              (angular_sampling w_example) (Some (min_cutoff w_example)) = (Inr [[0, 1, 3]], d)"
    using gr by (simp add: w_example_fields min_cutoff_example)
  have pick: "take_indices_batch (flat \<lparr> shape2 = (4, 1), flat = [[1, 1, 1, 1::real]] \<rparr>) [0, 1, 3] = Inr [[1, 1, 1]]"
    using pick_013 by simp
  show "AnnularDetector_detect fft2_dft abs2_sq d w_example True = (Inr [Some (3 / 4)], d)"
    unfolding annular_detect_eval(1)[where ?fft2.0 = fft2_dft and ?abs2.0 = abs2_sq and w = w_example,
        OF intensity_example gr' pick] by (simp add: np_divide_def)
qed

subsection \<open>The number of groups\<close>

text \<open>
  C3 as stated fails: with two radial bins and an outer limit beyond every sampled
  frequency all cells have label 0, and the grouper yields one group, not
  \<open>nbins_radial * nbins_azimuthal = 2\<close>.
\<close>

theorem group_count_counterexample:
  "polar_regions (4, 1) (1, 1) 0 8 2 1 = Inr [[0], [0], [0], [0]]
   \<and> label_to_index [[0], [0], [0], [0]] = Inr [[0, 1, 2, 3]]
   \<and> length [[0, 1, 2, 3::nat]] \<noteq> nat (2 * 1)"
  using labels_top_empty groups_0000 by simp

text \<open>
  C3 (amended). For every non-empty label array the grouper returns exactly
  \<open>max(labels) + 1\<close> index groups (none when the maximum is negative), one (possibly
  empty) group for every label value in \<open>[0, max(labels)]\<close>, in increasing label order:
  group \<open>v\<close> holds, each once, the flat indices that carry label \<open>v\<close>.
\<close>

theorem label_to_index_groups:
  assumes "concat labels \<noteq> []"
  shows "\<exists>groups. label_to_index labels = Inr groups
           \<and> int (length groups) = max 0 (Max (set (concat labels)) + 1)
           \<and> (\<forall>v < length groups.
                 distinct (groups ! v)
                 \<and> set (groups ! v) = {i. i < length (concat labels) \<and> concat labels ! i = int v})"
proof -
  obtain x xs where c: "concat labels = x # xs" using assms by (cases "concat labels") auto
  have m: "np_max (concat labels) = Inr (Max (set (concat labels)))"
    unfolding c using Max.set_eq_fold[of x xs] by simp
  let ?g = "map (\<lambda>v. filter (\<lambda>i. concat labels ! i = v) [0..<length (concat labels)])
                (arange (Max (set (concat labels)) + 1))"
  have g: "label_to_index labels = Inr ?g"
    unfolding label_to_index_eq m by simp
  have len: "int (length ?g) = max 0 (Max (set (concat labels)) + 1)"
    by (simp add: arange_def)
  have nth: "?g ! v = filter (\<lambda>i. concat labels ! i = int v) [0..<length (concat labels)]"
    if "v < length ?g" for v
    using that by (simp add: arange_def)
  have grp: "distinct (?g ! v)
      \<and> set (?g ! v) = {i. i < length (concat labels) \<and> concat labels ! i = int v}"
    if "v < length ?g" for v
    unfolding nth[OF that] by auto
  show ?thesis using g len grp by blast
qed

text \<open>
  Two radial and two azimuthal bins with a cell on the outer limit: labels 0, 2, 5, 3,
  hence six groups, two of them empty.
\<close>

theorem label_to_index_groups_witness:
  "concat [[0], [2], [5], [3::int]] \<noteq> []
   \<and> polar_regions (4, 1) (1, 1) 0 2 2 2 = Inr [[0], [2], [5], [3]]
   \<and> label_to_index [[0], [2], [5], [3]] = Inr [[0], [], [1], [3], [], [2]]
   \<and> int (length [[0], [], [1], [3], [], [2::nat]]) = max 0 (Max (set (concat [[0], [2], [5], [3::int]])) + 1)"
  using label_to_index_groups[of "[[0], [2], [5], [3]]"] labels_2x2 groups_0253 by simp

subsection \<open>Mutating the outer limit of an annular detector\<close>

text \<open>
  The setter keeps the radial step of the constructor: after \<^verbatim>\<open>outer = v\<close> on
  \<^verbatim>\<open>AnnularDetector(i, o)\<close> there are \<open>ceil((v - i) / (o - i))\<close> radial bins, where
  \<^verbatim>\<open>AnnularDetector(i, v)\<close> has one.
\<close>

lemma set_outer_stale_bins:
  assumes "o' \<noteq> i"
  shows "get_bins (AnnularDetector_set_outer cache_clear v (AnnularDetector_init i o')) c
           = Inr (\<lceil>(v - i) / (o' - i)\<rceil>, 1, i, v)"
    and "get_bins (AnnularDetector_init i v) c = (if v = i then Inl ZeroDivisionError else Inr (1, 1, i, v))"
  using assms
  by (simp_all add: get_bins_def AnnularDetector_set_outer_def cache_clear_def AnnularDetector_init_def
        PolarDetector_init_def py_div_def)

text \<open>
  C5 at a concrete input. \<^verbatim>\<open>AnnularDetector(0, 1500)\<close> detects once, then
  \<^verbatim>\<open>outer = 3000\<close> (the cache is cleared by the notification), then detects again on
  the same wave: the result is 3/4. A freshly constructed \<^verbatim>\<open>AnnularDetector(0, 3000)\<close>
  gives 1 on that wave.
\<close>

theorem annular_set_outer_stale_steps:
  "fst (AnnularDetector_detect fft2_dft abs2_sq
          (AnnularDetector_set_outer cache_clear 3000
             (snd (AnnularDetector_detect fft2_dft abs2_sq (AnnularDetector_init 0 1500) w_example True)))
          w_example True) = Inr [Some (3 / 4)]
   \<and> fst (AnnularDetector_detect fft2_dft abs2_sq (AnnularDetector_init 0 3000) w_example True)
       = Inr [Some 1]"
  unfolding set_outer_after_detect annular_mutated_detect annular_3000_detect by simp

text \<open>The same result when the notification clears nothing and the stale entry is served.\<close>

lemma annular_set_outer_without_invalidation:
  "fst (AnnularDetector_detect fft2_dft abs2_sq
          (AnnularDetector_set_outer (\<lambda>d. d) 3000
             (snd (AnnularDetector_detect fft2_dft abs2_sq (AnnularDetector_init 0 1500) w_example True)))
          w_example True) = Inr [Some (3 / 4)]"
proof -
  let ?d = "AnnularDetector_set_outer (\<lambda>d. d) 3000
             (snd (AnnularDetector_detect fft2_dft abs2_sq (AnnularDetector_init 0 1500) w_example True))"
  have c: "cache ?d = Some (((4, 1), (1000, 1000), Some 5000), [[0, 1, 3]])"
    unfolding annular_1500_detect by (simp add: AnnularDetector_set_outer_def)
  have gr: "get_regions ?d (shape2 \<lparr> shape2 = (4, 1), flat = [[1, 1, 1, 1::real]] \<rparr>)
              (angular_sampling w_example) (Some (min_cutoff w_example))
         = (Inr [[0, 1, 3]], ?d)"
    by (simp add: get_regions_def c w_example_fields min_cutoff_example)
  have pick: "take_indices_batch (flat \<lparr> shape2 = (4, 1), flat = [[1, 1, 1, 1::real]] \<rparr>) [0, 1, 3] = Inr [[1, 1, 1]]"
    using pick_013 by simp
  show ?thesis
    unfolding annular_detect_eval(1)[where ?fft2.0 = fft2_dft and ?abs2.0 = abs2_sq and w = w_example,
        OF intensity_example gr pick] by (simp add: np_divide_def)
qed

subsection \<open>A cell on the outer limit of an annular detector\<close>

text \<open>
  When no cell lies on the outer limit, the single region of a fresh annular detector
  is the set of valid cells, and \<^verbatim>\<open>_integrate_array\<close> divides the sum over them by
  the sum over the grid; when moreover every cell is valid, the result is 1.
\<close>

lemma interior_label:
  assumes "i < o'" and "i \<le> a" and "a < o'"
  shows "angular_bin 1 t + radial_bin i o' 1 a * 1 = 0"
proof -
  have "0 \<le> (a - i) / (o' - i)" "(a - i) / (o' - i) < 1" using assms by simp_all
  then have "\<lfloor>(a - i) / (o' - i)\<rfloor> = 0" by linarith
  then have "radial_bin i o' 1 a = 0" using assms radial_bin_floor[of i o' 1 a] by simp
  moreover have "angular_bin 1 t = 0" using angular_bin_range[of 1 t] by simp
  ultimately show ?thesis by simp
qed

lemma interior_labels:
  assumes "i < o'"
      and "polar_regions g ang i o' 1 1 = Inr labels"
      and "\<forall>a \<in> set (alpha_grid g ang). a \<noteq> o'"
      and "k < fst g * snd g"
  shows "concat labels ! k = (if i \<le> alpha_grid g ang ! k \<and> alpha_grid g ang ! k \<le> o' then 0 else - 1)"
proof -
  obtain ax ay where p: "frequency_grid g ang ! k = (ax, ay)" by (cases "frequency_grid g ang ! k")
  have l: "concat labels ! k = cell_label i o' 1 1 ax ay"
    using assms(4) p by (simp add: polar_regions_flat[OF assms(2)] length_frequency_grid)
  have a: "alpha_grid g ang ! k = alpha_of ax ay"
    using assms(4) p by (simp add: alpha_grid_def length_frequency_grid)
  have "alpha_grid g ang ! k \<in> set (alpha_grid g ang)"
    using assms(4) by (simp add: length_alpha_grid)
  then have ne: "alpha_of ax ay \<noteq> o'" using assms(3) a by auto
  show ?thesis
  proof (cases "i \<le> alpha_of ax ay \<and> alpha_of ax ay \<le> o'")
    case True
    then have "alpha_of ax ay < o'" using ne by simp
    then show ?thesis using True interior_label[OF assms(1), of "alpha_of ax ay" "angle_of ax ay"]
      by (simp add: l a cell_label_def valid_def)
  next
    case False
    then show ?thesis unfolding l a cell_label_def valid_def by auto
  qed
qed

lemma take_indices_batch_ok:
  assumes "\<forall>row \<in> set rows. \<forall>k \<in> set idx. k < length row"
  shows "take_indices_batch rows idx = Inr (map (\<lambda>row. map (\<lambda>k. row ! k) idx) rows)"
  using assms by (induction rows) (auto simp: take_indices_def list_all_iff)

lemma annular_regions_interior:
  assumes "i < o'"
      and "fst g \<noteq> 0" and "snd g \<noteq> 0" and "fst ang \<noteq> 0" and "snd ang \<noteq> 0"
      and "\<forall>a \<in> set (alpha_grid g (fst ang / 1000, snd ang / 1000)). a \<noteq> o' / 1000"
      and "\<exists>a \<in> set (alpha_grid g (fst ang / 1000, snd ang / 1000)). i / 1000 \<le> a \<and> a \<le> o' / 1000"
  shows "get_regions_body (AnnularDetector_init i o') g ang c
         = Inr [filter (\<lambda>k. i / 1000 \<le> alpha_grid g (fst ang / 1000, snd ang / 1000) ! k
                           \<and> alpha_grid g (fst ang / 1000, snd ang / 1000) ! k \<le> o' / 1000)
                  [0..<fst g * snd g]]"
proof -
  let ?ang = "(fst ang / 1000, snd ang / 1000)"
  let ?A = "alpha_grid g ?ang"
  let ?P = "\<lambda>k. i / 1000 \<le> ?A ! k \<and> ?A ! k \<le> o' / 1000"
  have io: "i / 1000 < o' / 1000" using assms(1) by simp
  have bins: "get_bins (AnnularDetector_init i o') c = Inr (1, 1, i, o')"
    using assms(1) by (simp add: bins_annular)
  obtain labels where l: "polar_regions g ?ang (i / 1000) (o' / 1000) 1 1 = Inr labels"
    using polar_regions_returns[of g ?ang "i / 1000" "o' / 1000" 1 1] assms(2-5) by auto
  define L where "L = concat labels"
  have len: "length L = fst g * snd g"
    by (simp add: L_def polar_regions_flat[OF l] length_frequency_grid)
  have lab: "L ! k = (if ?P k then 0 else - 1)" if "k < fst g * snd g" for k
    using interior_labels[OF io l assms(6) that] by (simp add: L_def)
  obtain a where a: "a \<in> set ?A" "i / 1000 \<le> a" "a \<le> o' / 1000" using assms(7) by blast
  then obtain k0 where k0: "k0 < fst g * snd g" "?A ! k0 = a"
    by (metis in_set_conv_nth length_alpha_grid)
  have zero_in: "0 \<in> set L"
    using k0 a lab[OF k0(1)] len by (metis nth_mem)
  have range: "x \<in> set L \<Longrightarrow> x = 0 \<or> x = - 1" for x
    using lab len by (metis in_set_conv_nth)
  have ne: "L \<noteq> []" using zero_in by auto
  have mx: "Max (set L) = 0"
  proof (rule Max_eqI)
    show "finite (set L)" by simp
    show "y \<le> 0" if "y \<in> set L" for y using range[OF that] by auto
    show "0 \<in> set L" by (rule zero_in)
  qed
  have notall: "\<not> list_all (\<lambda>l. l = - 1) L"
  proof
    assume "list_all (\<lambda>l. l = - 1) L"
    then have "(0::int) = - 1" using zero_in by (simp add: list_all_iff)
    then show False by simp
  qed
  obtain x xs where c: "L = x # xs" using ne by (cases L) auto
  have m: "np_max L = Inr 0"
    unfolding c using Max.set_eq_fold[of x xs] mx c by simp
  have grp: "filter (\<lambda>k. L ! k = 0) [0..<length L] = filter ?P [0..<fst g * snd g]"
    unfolding len by (rule filter_cong) (auto simp: lab)
  have "label_to_index labels = Inr [filter ?P [0..<fst g * snd g]]"
    unfolding label_to_index_eq L_def[symmetric] m using grp by (simp add: arange_def)
  then show ?thesis
    using notall by (simp add: get_regions_body_def bins l L_def)
qed

lemma annular_integrate_interior:
  assumes "i < o'"
      and "fst (shape2 arr) \<noteq> 0" and "snd (shape2 arr) \<noteq> 0" and "fst ang \<noteq> 0" and "snd ang \<noteq> 0"
      and "\<forall>row \<in> set (flat arr). length row = fst (shape2 arr) * snd (shape2 arr)"
      and "\<forall>a \<in> set (alpha_grid (shape2 arr) (fst ang / 1000, snd ang / 1000)). a \<noteq> o' / 1000"
      and "\<exists>a \<in> set (alpha_grid (shape2 arr) (fst ang / 1000, snd ang / 1000)).
             i / 1000 \<le> a \<and> a \<le> o' / 1000"
  shows "fst (integrate_array (AnnularDetector_init i o') arr ang c True)
         = Inr (map (\<lambda>row.
                  np_divide
                    (sum_list (map (\<lambda>k. row ! k)
                       (filter (\<lambda>k. i / 1000 \<le> alpha_grid (shape2 arr) (fst ang / 1000, snd ang / 1000) ! k
                                    \<and> alpha_grid (shape2 arr) (fst ang / 1000, snd ang / 1000) ! k \<le> o' / 1000)
                          [0..<fst (shape2 arr) * snd (shape2 arr)])))
                    (sum_list row)) (flat arr))"
proof -
  let ?idx = "filter (\<lambda>k. i / 1000 \<le> alpha_grid (shape2 arr) (fst ang / 1000, snd ang / 1000) ! k
                                    \<and> alpha_grid (shape2 arr) (fst ang / 1000, snd ang / 1000) ! k \<le> o' / 1000)
                          [0..<fst (shape2 arr) * snd (shape2 arr)]"
  have body: "get_regions_body (AnnularDetector_init i o') (shape2 arr) ang c = Inr [?idx]"
    by (rule annular_regions_interior[OF assms(1-5) assms(7,8)])
  have gr: "get_regions (AnnularDetector_init i o') (shape2 arr) ang c
            = (Inr [?idx], (AnnularDetector_init i o')\<lparr>cache := Some ((shape2 arr, ang, c), [?idx])\<rparr>)"
    by (rule get_regions_miss[OF cache_annular_init body])
  have "\<forall>row \<in> set (flat arr). \<forall>k \<in> set ?idx. k < length row"
    using assms(6) by auto
  then have pick: "take_indices_batch (flat arr) ?idx = Inr (map (\<lambda>row. map (\<lambda>k. row ! k) ?idx) (flat arr))"
    by (rule take_indices_batch_ok)
  show ?thesis
    unfolding integrate_array_eval(1)[OF gr pick]
    by (simp add: o_def map2_map_map)
qed

lemma annular_detect_full_cover:
  assumes "abs2 (fft2 (array w)) = arr" and "i < o'"
      and "fst (shape2 arr) \<noteq> 0" and "snd (shape2 arr) \<noteq> 0"
      and "fst (angular_sampling w) \<noteq> 0" and "snd (angular_sampling w) \<noteq> 0"
      and "\<forall>row \<in> set (flat arr). length row = fst (shape2 arr) * snd (shape2 arr) \<and> sum_list row \<noteq> 0"
      and "\<forall>a \<in> set (alpha_grid (shape2 arr)
                        (fst (angular_sampling w) / 1000, snd (angular_sampling w) / 1000)).
             i / 1000 \<le> a \<and> a < o' / 1000"
  shows "fst (AnnularDetector_detect fft2 abs2 (AnnularDetector_init i o') w True)
         = Inr (map (\<lambda>row. Some 1) (flat arr))"
proof -
  let ?A = "alpha_grid (shape2 arr) (fst (angular_sampling w) / 1000, snd (angular_sampling w) / 1000)"
  let ?n = "fst (shape2 arr) * snd (shape2 arr)"
  have n: "0 < ?n" using assms(3,4) by simp
  have lenA: "length ?A = ?n" by (rule length_alpha_grid)
  have a1: "\<forall>a \<in> set ?A. a \<noteq> o' / 1000" using assms(8) by auto
  have "?A ! 0 \<in> set ?A" using n lenA by (metis nth_mem)
  then have a2: "\<exists>a \<in> set ?A. i / 1000 \<le> a \<and> a \<le> o' / 1000" using assms(8) by force
  have wf: "\<forall>row \<in> set (flat arr). length row = ?n" using assms(7) by blast
  have all: "filter (\<lambda>k. i / 1000 \<le> ?A ! k \<and> ?A ! k \<le> o' / 1000) [0..<?n] = [0..<?n]"
  proof (rule filter_True)
    show "\<forall>k \<in> set [0..<?n]. i / 1000 \<le> ?A ! k \<and> ?A ! k \<le> o' / 1000"
    proof
      fix k assume "k \<in> set [0..<?n]"
      then have "?A ! k \<in> set ?A" using lenA by (metis atLeastLessThan_iff nth_mem set_upt)
      then show "i / 1000 \<le> ?A ! k \<and> ?A ! k \<le> o' / 1000" using assms(8) by force
    qed
  qed
  have row: "np_divide (sum_list (map (\<lambda>k. row ! k) [0..<?n])) (sum_list row) = Some 1"
    if "row \<in> set (flat arr)" for row
  proof -
    have "length row = ?n" "sum_list row \<noteq> 0" using assms(7) that by auto
    then show ?thesis using map_nth[of row] by (simp add: np_divide_def)
  qed
  have "fst (integrate_array (AnnularDetector_init i o') arr (angular_sampling w) (Some (min_cutoff w)) True)
        = Inr (map (\<lambda>row. np_divide (sum_list (map (\<lambda>k. row ! k) [0..<?n])) (sum_list row)) (flat arr))"
    using annular_integrate_interior[OF assms(2-6) wf a1 a2, of "Some (min_cutoff w)"]
    unfolding all .
  also have "\<dots> = Inr (map (\<lambda>row. Some 1) (flat arr))"
    using row by simp
  finally show ?thesis
    by (simp add: AnnularDetector_detect_def Let_def assms(1))
qed

text \<open>
  C6 at a concrete input. For \<^verbatim>\<open>AnnularDetector(0, 2000)\<close> every cell of the grid is
  valid (\<open>0 \<le> alpha \<le> outer\<close>) and the intensity is 1 in every cell, yet
  \<^verbatim>\<open>detect\<close> returns 3/4 with \<open>normalize\<close> and 3 without: the cell with
  \<open>alpha = outer\<close> has label 1 and is not in the first region.
\<close>

theorem annular_boundary_cell_dropped:
  "list_all (\<lambda>a. 0 / 1000 \<le> a \<and> a \<le> 2000 / 1000) (alpha_grid (4, 1) (1000 / 1000, 1000 / 1000))
   \<and> abs2_sq (fft2_dft (array w_example)) = \<lparr> shape2 = (4, 1), flat = [[1, 1, 1, 1]] \<rparr>
   \<and> fst (AnnularDetector_detect fft2_dft abs2_sq (AnnularDetector_init 0 2000) w_example True)
       = Inr [Some (3 / 4)]
   \<and> fst (AnnularDetector_detect fft2_dft abs2_sq (AnnularDetector_init 0 2000) w_example False)
       = Inr [Some 3]"
proof -
  have gr: "get_regions (AnnularDetector_init 0 2000) (shape2 \<lparr> shape2 = (4, 1), flat = [[1, 1, 1, 1::real]] \<rparr>)
              (angular_sampling w_example) (Some (min_cutoff w_example))
         = (Inr [[0, 1, 3], [2]],
            (AnnularDetector_init 0 2000)\<lparr>cache := Some (((4, 1), (1000, 1000), Some 5000), [[0, 1, 3], [2]])\<rparr>)"
    using get_regions_miss[OF cache_annular_init regions_annular_2000[of "Some 5000"]]
    by (simp add: w_example_fields min_cutoff_example)
  have pick: "take_indices_batch (flat \<lparr> shape2 = (4, 1), flat = [[1, 1, 1, 1::real]] \<rparr>) [0, 1, 3] = Inr [[1, 1, 1]]"
    using pick_013 by simp
  have valid: "list_all (\<lambda>a. 0 / 1000 \<le> a \<and> a \<le> 2000 / 1000) (alpha_grid (4, 1) (1000 / 1000, 1000 / 1000))"
    using alpha_grid_4x1 by simp
  have t: "fst (AnnularDetector_detect fft2_dft abs2_sq (AnnularDetector_init 0 2000) w_example True)
       = Inr [Some (3 / 4)]"
    unfolding annular_detect_eval(1)[where ?fft2.0 = fft2_dft and ?abs2.0 = abs2_sq and w = w_example,
        OF intensity_example gr pick] by (simp add: np_divide_def)
  have f: "fst (AnnularDetector_detect fft2_dft abs2_sq (AnnularDetector_init 0 2000) w_example False)
       = Inr [Some 3]"
    unfolding annular_detect_eval(2)[where ?fft2.0 = fft2_dft and ?abs2.0 = abs2_sq and w = w_example,
        OF intensity_example gr pick] by simp
  show ?thesis using valid intensity_example t f by blast
qed

subsection \<open>The shape of the segmented detector's output\<close>

text \<open>
  C7 at concrete inputs. \<^verbatim>\<open>SegmentedDetector(0, 8000, 2, 1)\<close>: no cell reaches the
  second radial bin, there is one group, and the reshape to \<open>(-1, 2, 1)\<close> raises for one
  wave; for two waves it succeeds and mixes the two batch elements.
  \<^verbatim>\<open>SegmentedDetector(0, 2000, 2, 1)\<close>: the cell on the outer limit has radial bin 2,
  there are three groups, and the reshape raises.
\<close>

theorem segmented_detect_shape_fails:
  "SegmentedDetector_init 0 8000 2 1 = Inr segmented_wide
   \<and> fst (SegmentedDetector_detect fft2_dft abs2_sq segmented_wide w_example) = Inl ValueError
   \<and> fst (SegmentedDetector_detect fft2_dft abs2_sq segmented_wide w_example2)
       = Inr [[[Some 1], [Some 4]], [[Some (1 / 4)], [Some 1]]]
   \<and> SegmentedDetector_init 0 2000 2 1 = Inr segmented_edge
   \<and> fst (SegmentedDetector_detect fft2_dft abs2_sq segmented_edge w_example) = Inl ValueError"
  using segmented_inits(1,2) segmented_wide_detect segmented_wide_detect2 segmented_edge_detect
  by blast

end
